theory Spec2Isabelle
  imports Main "HOL-Library.Sublist" "HOL-Library.AList" "HOL-Library.Monad_Syntax"
    "HOL-Library.Word" "HOL-Library.Multiset"
begin

text \<open>
  A model of the resume shortlister: \<^verbatim>\<open>models.py\<close> (the record of one analysis) and
  \<^verbatim>\<open>app.py\<close> (text extraction, the call of the language model with the parsing of its
  answer, and the handler of the Analyze button). Exceptions are values, what is shown to
  the user and what is sent to the model is kept in an explicit state, and the
  third-party libraries are parameters.
\<close>

section \<open>Python strings and bytes\<close>

text \<open>
  A Python \<^verbatim>\<open>str\<close> is modelled as a \<^typ>\<open>string\<close>: a list of characters, each
  character standing for one code point below 256. A \<^verbatim>\<open>bytes\<close> object is a list of
  8-bit words. All string operations used by \<^verbatim>\<open>app.py\<close> are written out below.
\<close>

type_synonym bytes = "8 word list"

text \<open>
  \<^verbatim>\<open>str.isspace\<close> on one character: the whitespace code points below 256 are
  TAB..CR (9..13), FS..US (28..31), SPACE (32), NEL (133) and NBSP (160).
\<close>

definition isspace :: "char \<Rightarrow> bool" where
  "isspace c = (of_char c \<in> {9, 10, 11, 12, 13, 28, 29, 30, 31, 32, 133, 160 :: nat})"

text \<open>\<^verbatim>\<open>s.strip()\<close>: drop the whitespace at both ends.\<close>

definition strip :: "string \<Rightarrow> string" where
  "strip s = rev (dropWhile isspace (rev (dropWhile isspace s)))"

text \<open>\<^verbatim>\<open>s.endswith(suf)\<close>, a case-sensitive comparison of the last characters.\<close>

definition endswith :: "string \<Rightarrow> string \<Rightarrow> bool" where
  "endswith s suf = (length suf \<le> length s \<and> drop (length s - length suf) s = suf)"

text \<open>
  \<^verbatim>\<open>s.replace(old, new)\<close>: scan from the left; wherever \<open>old\<close> starts, emit \<open>new\<close>
  and continue behind the match (matches do not overlap); any other character is copied.
  With an empty \<open>old\<close>, Python inserts \<open>new\<close> before every character and at the end.
\<close>

function str_replace :: "string \<Rightarrow> string \<Rightarrow> string \<Rightarrow> string" where
  "str_replace old new [] = (if old = [] then new else [])"
| "str_replace old new (c # cs) =
     (if old = [] then new @ c # str_replace old new cs
      else if prefix old (c # cs)
        then new @ str_replace old new (drop (length old) (c # cs))
      else c # str_replace old new cs)"
  by pat_completeness auto
termination
  by (relation "measure (\<lambda>(old, new, s). length s)") auto

text \<open>\<^verbatim>\<open>sep.join(xs)\<close>.\<close>

fun join :: "string \<Rightarrow> string list \<Rightarrow> string" where
  "join sep [] = []"
| "join sep [x] = x"
| "join sep (x # y # ys) = x @ sep @ join sep (y # ys)"

text \<open>\<^verbatim>\<open>str(n)\<close> for an integer, as an f-string renders it.\<close>

definition digit_char :: "nat \<Rightarrow> char" where
  "digit_char d = char_of (48 + d)"

function str_nat :: "nat \<Rightarrow> string" where
  "str_nat n = (if n < 10 then [digit_char n] else str_nat (n div 10) @ [digit_char (n mod 10)])"
  by pat_completeness auto
termination
  by (relation "measure (\<lambda>n. n)") auto

definition str_int :: "int \<Rightarrow> string" where
  "str_int i = (if i < 0 then CHR ''-'' # str_nat (nat (- i)) else str_nat (nat i))"

section \<open>The prompt\<close>

text \<open>
  \<^verbatim>\<open>PROMPT_TEMPLATE.format(job_description=..., resume_text=...)\<close>: the template of
  \<^verbatim>\<open>app.py\<close>, line by line, with the two arguments spliced in unescaped and the doubled
  braces of the template rendered as single ones. \<open>CHR 0x5C\<close> is the backslash.
\<close>

definition PROMPT_TEMPLATE_format :: "string \<Rightarrow> string \<Rightarrow> string" where
  \<open>PROMPT_TEMPLATE_format job_description resume_text = concat [
    ''\<newline>'',
    ''You are a highly intelligent AI-powered Technical Recruiter. \<newline>'',
    ''Your primary goal is to dynamically adapt your expertise to match the specific role described in the provided Job Description. \<newline>'',
    ''You must act as a specialist for whatever role is presented to you.\<newline>'',
    ''\<newline>'',
    ''Instructions:\<newline>'',
    ''1.  Determine Key Criteria: First, carefully analyze the provided 'Job Description' to identify the 5-7 most critical skills, technologies and qualifications required for the role. This set of criteria becomes your evaluation rubric. Do not use a generic software engineering rubric, it must be tailored to the specific job.\<newline>'',
    ''2.  Analyze the Resume against Criteria: Next, thoroughly review the candidate's 'Resume Text'. Scrutinize their experience, projects and listed skills to find evidence of the key criteria you identified in step 1.\<newline>'',
    ''3.  Score and Justify: Based on how well the resume aligns with the key criteria, provide a holistic fit score from 0 to 100. Your reasoning must clearly connect the resume's content (or lack thereof) to the job description's specific requirements.\<newline>'',
    ''4.  Maintain Objectivity: Base your entire analysis strictly on the information given in the resume and the job description. Do not invent or infer details.\<newline>'',
    ''5.  JSON Output Only: Your entire response must be a single, valid JSON object. Do not include any text, explanations or markdown formatting before or after the JSON object.\<newline>'',
    ''\<newline>'',
    ''Job Description:\<newline>'',
    ''<job_description>\<newline>'',
    job_description,
    ''\<newline>'',
    ''</job_description>\<newline>'',
    ''\<newline>'',
    ''Resume Text:\<newline>'',
    ''<resume_text>\<newline>'',
    resume_text,
    ''\<newline>'',
    ''</resume_text>\<newline>'',
    ''\<newline>'',
    ''Required JSON Output Format:\<newline>'',
    ''{\<newline>'',
    ''    "candidate_name": "Full Name",\<newline>'',
    ''    "score": <integer from 0-100>,\<newline>'',
    ''    "summary": "A 2-3 sentence summary of the candidate's overall fit for this specific role.",\<newline>'',
    ''    "reasoning": "A single string containing a detailed analysis in markdown format. It must start with '**Strengths:**' followed by bullet points and then '**Gaps:**' followed by bullet points. For example: '**Strengths:**'',
    [CHR 0x5C],
    ''n- 5+ years of Java experience.'',
    [CHR 0x5C],
    ''n- Experience with REST APIs and SQL.'',
    [CHR 0x5C],
    ''n'',
    [CHR 0x5C],
    ''n**Gaps:**'',
    [CHR 0x5C],
    ''n- Lacks experience with cloud platforms (AWS/GCP) mentioned in the JD.'",'',
    ''\<newline>'',
    ''    "is_recommended": <boolean, true if score >= 70, else false>\<newline>'',
    ''}\<newline>''
  ]\<close>

section \<open>Exceptions, JSON values and the libraries\<close>

text \<open>
  The exception classes that decide which handler of \<^verbatim>\<open>analyze_with_gemini\<close> runs.
  \<open>ValidationError\<close> is pydantic's (a \<^verbatim>\<open>ValueError\<close>); \<open>ValueError\<close> is a
  \<^verbatim>\<open>ValueError\<close> that is neither of the two; \<open>OtherError\<close> stands for every other
  subclass of \<^verbatim>\<open>Exception\<close> (a network failure, a blocked response, ...).
  A subclass of one of the classes named here counts as that class. An exception carries
  the text that \<^verbatim>\<open>str(e)\<close> gives.
\<close>

datatype exn_class =
  JSONDecodeError | TypeError | KeyError | AttributeError | ValidationError
  | ValueError | RecursionError | UnboundLocalError | OtherError

datatype exn = Exn (cls: exn_class) (msg: string)

text \<open>
  What \<^verbatim>\<open>json.loads\<close> returns: \<^verbatim>\<open>None\<close>, a bool, an int, a float (kept as its
  literal), a str, a list or a dict. A dict is an association list read with \<^const>\<open>map_of\<close>.
\<close>

datatype json =
  JNull | JBool bool | JInt int | JFloat string | JString string
  | JArray "json list" | JObject "(string \<times> json) list"

text \<open>
  The third-party code behind the calls of \<^verbatim>\<open>app.py\<close>, as parameters of the model:
  \<^item> \<open>json_loads\<close>: \<^verbatim>\<open>json.loads\<close>; \<open>Inl e\<close> is the exception it raises, a
    \<^verbatim>\<open>JSONDecodeError\<close> on a syntax error, but also a \<^verbatim>\<open>RecursionError\<close> on deeply
    nested text or a \<^verbatim>\<open>ValueError\<close> on an over-long integer literal;
  \<^item> \<open>py_str\<close>: \<^verbatim>\<open>str(v)\<close> of a value that is not a str;
  \<^item> \<open>lax_str\<close>, \<open>lax_int\<close>, \<open>lax_bool\<close>: what pydantic makes of a value whose JSON type
    is not the field's own (its conversions differ between versions); \<open>None\<close> is a rejection;
  \<^item> \<open>validation_error_str\<close>: the text of pydantic's \<^verbatim>\<open>ValidationError\<close> for rejected
    keyword arguments;
  \<^item> \<open>pdf_page_texts\<close>: \<^verbatim>\<open>fitz.open\<close> and \<^verbatim>\<open>page.get_text()\<close> of every page, in page
    order, or the exception raised on the way;
  \<^item> \<open>docx_paragraph_texts\<close>: \<^verbatim>\<open>docx.Document\<close> and \<^verbatim>\<open>para.text\<close> of every
    paragraph, in document order, or the exception raised on the way.
\<close>

record pylib =
  json_loads :: "string \<Rightarrow> exn + json"
  py_str :: "json \<Rightarrow> string"
  lax_str :: "json \<Rightarrow> string option"
  lax_int :: "json \<Rightarrow> int option"
  lax_bool :: "json \<Rightarrow> bool option"
  validation_error_str :: "(string \<times> json) list \<Rightarrow> string"
  pdf_page_texts :: "bytes \<Rightarrow> exn + string list"
  docx_paragraph_texts :: "bytes \<Rightarrow> exn + string list"

text \<open>
  The response object of the model client; \<^verbatim>\<open>response.text\<close> is a property that may
  raise. The client itself, \<^verbatim>\<open>model.generate_content\<close>, is a function of the prompts sent
  before and of the prompt: it returns a response or raises.
\<close>

datatype response = Response (get_text: "exn + string")

type_synonym generate_content = "string list \<Rightarrow> string \<Rightarrow> exn + response"

section \<open>The user interface and the state of a run\<close>

datatype ui_event =
  StError string
  | StWrite string
  | StSpinner string
  | StProgress nat nat
  | StProgressEmpty
  | StSubheader string
  | StMarkdown string
  | StSuccess string
  | StWarning string
  | StExpander string "ui_event list"

text \<open>
  The state: the prompts sent to the model so far, one per call, and what has been
  shown to the user, both oldest first.
\<close>

record world =
  prompts :: "string list"
  ui :: "ui_event list"

definition emit :: "ui_event \<Rightarrow> world \<Rightarrow> world" where
  "emit ev w = w\<lparr>ui := ui w @ [ev]\<rparr>"

section \<open>models.py\<close>

record CandidateAnalysis =
  candidate_name :: string
  score :: int
  summary :: string
  reasoning :: string
  is_recommended :: bool

text \<open>
  Validation of one keyword argument by pydantic: a missing key is rejected, a value of
  the field's own JSON type is taken as it is, any other value goes through the
  library's conversion. The bounds \<^verbatim>\<open>ge=0, le=100\<close> of \<open>score\<close> are checked on the integer
  obtained.
\<close>

definition validate_str :: "pylib \<Rightarrow> json option \<Rightarrow> string option" where
  "validate_str lib v =
     (case v of None \<Rightarrow> None | Some (JString s) \<Rightarrow> Some s | Some x \<Rightarrow> lax_str lib x)"

definition validate_bool :: "pylib \<Rightarrow> json option \<Rightarrow> bool option" where
  "validate_bool lib v =
     (case v of None \<Rightarrow> None | Some (JBool b) \<Rightarrow> Some b | Some x \<Rightarrow> lax_bool lib x)"

definition validate_int :: "pylib \<Rightarrow> json option \<Rightarrow> int option" where
  "validate_int lib v =
     (case v of None \<Rightarrow> None | Some (JInt n) \<Rightarrow> Some n | Some x \<Rightarrow> lax_int lib x)"

definition validate_score :: "pylib \<Rightarrow> json option \<Rightarrow> int option" where
  "validate_score lib v =
     (case validate_int lib v of
        None \<Rightarrow> None
      | Some n \<Rightarrow> if 0 \<le> n \<and> n \<le> 100 then Some n else None)"

definition validate_fields :: "pylib \<Rightarrow> (string \<times> json) list \<Rightarrow> CandidateAnalysis option" where
  "validate_fields lib kw =
     do {
       n \<leftarrow> validate_str lib (map_of kw ''candidate_name'');
       s \<leftarrow> validate_score lib (map_of kw ''score'');
       sm \<leftarrow> validate_str lib (map_of kw ''summary'');
       r \<leftarrow> validate_str lib (map_of kw ''reasoning'');
       b \<leftarrow> validate_bool lib (map_of kw ''is_recommended'');
       Some \<lparr>candidate_name = n, score = s, summary = sm, reasoning = r, is_recommended = b\<rparr>
     }"

text \<open>
  \<^verbatim>\<open>CandidateAnalysis(**kw)\<close>: every field is required, keys that are no field are
  ignored, and any rejected field raises pydantic's \<^verbatim>\<open>ValidationError\<close>.
\<close>

definition CandidateAnalysis_init :: "pylib \<Rightarrow> (string \<times> json) list \<Rightarrow> exn + CandidateAnalysis" where
  "CandidateAnalysis_init lib kw =
     (case validate_fields lib kw of
        Some a \<Rightarrow> Inr a
      | None \<Rightarrow> Inl (Exn ValidationError (validation_error_str lib kw)))"

section \<open>app.py: parse_resume\<close>

definition parse_resume :: "pylib \<Rightarrow> bytes \<Rightarrow> string \<Rightarrow> world \<Rightarrow> string \<times> world" where
  "parse_resume lib file_bytes filename w =
     (if endswith filename ''.pdf'' then
        (case pdf_page_texts lib file_bytes of
           Inr pages \<Rightarrow> (join [] pages, w)
         | Inl e \<Rightarrow> ([], emit (StError (''Error parsing '' @ filename @ '' : '' @ msg e)) w))
      else if endswith filename ''.docx'' then
        (case docx_paragraph_texts lib file_bytes of
           Inr paras \<Rightarrow> (join ''\<newline>'' paras, w)
         | Inl e \<Rightarrow> ([], emit (StError (''Error parsing '' @ filename @ '' : '' @ msg e)) w))
      else ([], w))"

section \<open>app.py: analyze_with_gemini\<close>

text \<open>Line 71: the text handed to \<^verbatim>\<open>json.loads\<close>.\<close>

definition response_text :: "string \<Rightarrow> string" where
  "response_text raw = str_replace ''```'' [] (str_replace ''```json'' [] (strip raw))"

text \<open>An f-string field \<^verbatim>\<open>{v}\<close>: a str is spliced in as it is, anything else through \<^verbatim>\<open>str\<close>.\<close>

definition format_value :: "pylib \<Rightarrow> json \<Rightarrow> string" where
  "format_value lib v = (case v of JString s \<Rightarrow> s | _ \<Rightarrow> py_str lib v)"

text \<open>\<^verbatim>\<open>d.get(k, default)\<close>.\<close>

definition dict_get :: "(string \<times> json) list \<Rightarrow> string \<Rightarrow> json \<Rightarrow> json" where
  "dict_get d k dflt = (case map_of d k of None \<Rightarrow> dflt | Some v \<Rightarrow> v)"

text \<open>Lines 74 to 78: a \<open>reasoning\<close> that is a dict is rebuilt into one markdown string.\<close>

definition normalize_reasoning :: "pylib \<Rightarrow> (string \<times> json) list \<Rightarrow> (string \<times> json) list" where
  "normalize_reasoning lib response_json =
     (case map_of response_json ''reasoning'' of
        Some (JObject reasoning_dict) \<Rightarrow>
          (let strengths = dict_get reasoning_dict ''Strengths'' (JString ''N/A'');
               gaps = dict_get reasoning_dict ''Gaps'' (JString ''N/A'')
           in AList.update ''reasoning''
                (JString (''\<newline>**Strengths:**\<newline>'' @ format_value lib strengths
                          @ ''\<newline>\<newline>**Gaps:**\<newline>'' @ format_value lib gaps))
                response_json)
      | _ \<Rightarrow> response_json)"

text \<open>The name of a value's type, as the text of an \<^verbatim>\<open>AttributeError\<close> shows it.\<close>

fun type_name :: "json \<Rightarrow> string" where
  "type_name JNull = ''NoneType''"
| "type_name (JBool b) = ''bool''"
| "type_name (JInt n) = ''int''"
| "type_name (JFloat f) = ''float''"
| "type_name (JString s) = ''str''"
| "type_name (JArray xs) = ''list''"
| "type_name (JObject d) = ''dict''"

text \<open>
  Lines 70 to 80, the body of the \<^verbatim>\<open>try\<close>: the first exception raised, or the record
  built. Only a dict has a \<^verbatim>\<open>get\<close>; on any other JSON value line 74 raises
  \<^verbatim>\<open>AttributeError\<close>.
\<close>

definition try_body :: "pylib \<Rightarrow> exn + response \<Rightarrow> exn + CandidateAnalysis" where
  "try_body lib response =
     (case response of
        Inl e \<Rightarrow> Inl e
      | Inr r \<Rightarrow>
          (case get_text r of
             Inl e \<Rightarrow> Inl e
           | Inr raw \<Rightarrow>
               (case json_loads lib (response_text raw) of
                  Inl e \<Rightarrow> Inl e
                | Inr (JObject response_json) \<Rightarrow>
                    CandidateAnalysis_init lib (normalize_reasoning lib response_json)
                | Inr v \<Rightarrow>
                    Inl (Exn AttributeError
                          ([CHR 0x27] @ type_name v @ [CHR 0x27]
                           @ '' object has no attribute '' @ [CHR 0x27] @ ''get'' @ [CHR 0x27])))))"

text \<open>
  Lines 82 to 87, the first handler. It reads \<^verbatim>\<open>response.text\<close> again: when the call
  itself raised, \<^verbatim>\<open>response\<close> is unbound, and when the property raised, it raises again;
  an exception raised inside a handler leaves the function. The text of the
  \<^verbatim>\<open>UnboundLocalError\<close> is the one of Python 3.11 and later.
\<close>

definition format_error_handler :: "exn \<Rightarrow> exn + response \<Rightarrow> world \<Rightarrow> (exn + CandidateAnalysis) \<times> world" where
  "format_error_handler e response w =
     (let w' = emit (StError (''Error parsing Gemini'' @ [CHR 0x27] @ ''s JSON response : '' @ msg e
                       @ '', the model might have returned an invalid format !'')) w
      in case response of
           Inl _ \<Rightarrow>
             (Inl (Exn UnboundLocalError
                (''cannot access local variable '' @ [CHR 0x27] @ ''response'' @ [CHR 0x27]
                 @ '' where it is not associated with a value'')), w')
         | Inr r \<Rightarrow>
             (case get_text r of
                Inl e' \<Rightarrow> (Inl e', w')
              | Inr raw \<Rightarrow>
                  (Inr \<lparr>candidate_name = ''Unknown/Error'', score = 0,
                        summary = ''Analysis failed due to response format error !'',
                        reasoning = ''Failed to parse model output, raw response : '' @ raw,
                        is_recommended = False\<rparr>, w')))"

text \<open>Lines 88 to 93, the handler of every other \<^verbatim>\<open>Exception\<close>.\<close>

definition unexpected_error_handler :: "exn \<Rightarrow> world \<Rightarrow> (exn + CandidateAnalysis) \<times> world" where
  "unexpected_error_handler e w =
     (Inr \<lparr>candidate_name = ''Unknown/Error'', score = 0, summary = ''Analysis failed !'',
           reasoning = ''An unexpected error occurred : '' @ msg e, is_recommended = False\<rparr>,
      emit (StError (''An unexpected error occurred during analysis : '' @ msg e)) w)"

definition analyze_with_gemini ::
  "pylib \<Rightarrow> generate_content \<Rightarrow> string \<Rightarrow> string \<Rightarrow> world \<Rightarrow> (exn + CandidateAnalysis) \<times> world" where
  "analyze_with_gemini lib model job_description resume_text w =
     (let prompt = PROMPT_TEMPLATE_format job_description resume_text;
          response = model (prompts w) prompt;
          w' = w\<lparr>prompts := prompts w @ [prompt]\<rparr>
      in case try_body lib response of
           Inr analysis \<Rightarrow> (Inr analysis, w')
         | Inl e \<Rightarrow>
             if cls e \<in> {JSONDecodeError, TypeError, KeyError}
             then format_error_handler e response w'
             else unexpected_error_handler e w')"

section \<open>app.py: the Analyze button\<close>

record uploaded_file =
  name :: string
  read :: bytes

text \<open>
  Python's \<^verbatim>\<open>sorted(xs, key=..., reverse=...)\<close>. The sort is stable; with
  \<^verbatim>\<open>reverse=True\<close> the list is reversed, sorted and reversed again, which keeps equal
  keys in their original order.
\<close>

definition sorted_py :: "('a \<Rightarrow> int) \<Rightarrow> bool \<Rightarrow> 'a list \<Rightarrow> 'a list" where
  "sorted_py key reverse xs =
     (if reverse then rev (sort_key key (rev xs)) else sort_key key xs)"

text \<open>Line 140.\<close>

definition ranked_candidates :: "CandidateAnalysis list \<Rightarrow> CandidateAnalysis list" where
  "ranked_candidates all_analyses = sorted_py score True all_analyses"

text \<open>Lines 145 to 158: the expander of one candidate.\<close>

definition render_candidate :: "CandidateAnalysis \<Rightarrow> ui_event" where
  "render_candidate candidate =
     StExpander (''**'' @ candidate_name candidate @ ''**'')
       [StMarkdown (''**Score:** <span style='' @ [CHR 0x27] @ ''color:''
                    @ (if is_recommended candidate then ''green'' else ''orange'')
                    @ ''; font-size: 1.1em;'' @ [CHR 0x27] @ ''>''
                    @ str_int (score candidate) @ ''/100</span>''),
        if is_recommended candidate then StSuccess ''Recommended for Interview''
        else StWarning ''Review with Caution'',
        StMarkdown ''**Summary:**'',
        StMarkdown (summary candidate)]"

text \<open>
  Lines 127 to 135, one round of the loop over the uploads: the results so far and the
  state go in and come out. An exception that leaves \<^verbatim>\<open>analyze_with_gemini\<close> ends the run.
\<close>

definition loop_body ::
  "pylib \<Rightarrow> generate_content \<Rightarrow> string \<Rightarrow> nat \<Rightarrow> nat \<Rightarrow> uploaded_file
     \<Rightarrow> CandidateAnalysis list \<Rightarrow> world \<Rightarrow> (exn + CandidateAnalysis list) \<times> world" where
  "loop_body lib model jd_input n i file all_analyses w =
     (let w1 = emit (StWrite (''Processing '' @ name file @ '' ...'')) w;
          file_bytes = read file;
          (resume_text, w2) = parse_resume lib file_bytes (name file) w1
      in if resume_text \<noteq> [] then
           (case analyze_with_gemini lib model jd_input resume_text w2 of
              (Inl e, w3) \<Rightarrow> (Inl e, w3)
            | (Inr analysis, w3) \<Rightarrow>
                (Inr (all_analyses @ [analysis]), emit (StProgress (i + 1) n) w3))
         else (Inr all_analyses, emit (StProgress (i + 1) n) w2))"

text \<open>Line 126: the loop, \<open>i\<close> counting the uploads and \<open>n\<close> their number.\<close>

fun analyze_loop ::
  "pylib \<Rightarrow> generate_content \<Rightarrow> string \<Rightarrow> nat \<Rightarrow> nat \<Rightarrow> uploaded_file list
     \<Rightarrow> CandidateAnalysis list \<Rightarrow> world \<Rightarrow> (exn + CandidateAnalysis list) \<times> world" where
  "analyze_loop lib model jd_input n i [] all_analyses w = (Inr all_analyses, w)"
| "analyze_loop lib model jd_input n i (file # files) all_analyses w =
     (case loop_body lib model jd_input n i file all_analyses w of
        (Inl e, w') \<Rightarrow> (Inl e, w')
      | (Inr all_analyses', w') \<Rightarrow> analyze_loop lib model jd_input n (i + 1) files all_analyses' w')"

text \<open>
  Lines 116 to 158, a click on the button: the result is the exception that ended the
  run, if any, and the state with everything shown.
\<close>

definition analyze_button ::
  "pylib \<Rightarrow> generate_content \<Rightarrow> string \<Rightarrow> uploaded_file list \<Rightarrow> world \<Rightarrow> exn option \<times> world" where
  "analyze_button lib model jd_input resume_files w =
     (if strip jd_input = [] then (None, emit (StError ''Please paste a job description.'') w)
      else if resume_files = [] then
        (None, emit (StError ''Please upload at least one resume.'') w)
      else
        (let w0 = emit (StProgress 0 1)
                    (emit (StSpinner ''Analyzing ... this may take a few moments ...'') w)
         in case analyze_loop lib model jd_input (length resume_files) 0 resume_files [] w0 of
              (Inl e, w1) \<Rightarrow> (Some e, w1)
            | (Inr all_analyses, w1) \<Rightarrow>
                (let w2 = emit StProgressEmpty w1
                 in if all_analyses \<noteq> [] then
                      (None, w2\<lparr>ui := ui w2 @ StSubheader ''Analysis Results''
                                        # map render_candidate (ranked_candidates all_analyses)\<rparr>)
                    else (None, w2))))"

section \<open>The specification's wording of some operations\<close>

text \<open>
  The preparation of the response as the specification words it: trim the surrounding
  whitespace, then strip one leading and one trailing code-fence marker if present.
\<close>

definition spec_response_text :: "string \<Rightarrow> string" where
  "spec_response_text raw =
     (let t = strip raw;
          t1 = (if prefix ''```json'' t then drop 7 t
                else if prefix ''```'' t then drop 3 t else t)
      in if endswith t1 ''```'' then take (length t1 - 3) t1 else t1)"

text \<open>
  Deleting every occurrence of a marker, character by character: the text is read from
  the left, \<open>k\<close> is the number of characters of the current occurrence still to come.
  A character inside an occurrence is dropped and every other character is kept; an
  occurrence begins where the marker starts and no occurrence is under way.
\<close>

fun delete_scan :: "string \<Rightarrow> nat \<Rightarrow> string \<Rightarrow> string" where
  "delete_scan marker k [] = []"
| "delete_scan marker (Suc k) (c # cs) = delete_scan marker k cs"
| "delete_scan marker 0 (c # cs) =
     (if marker \<noteq> [] \<and> prefix marker (c # cs) then delete_scan marker (length marker - 1) cs
      else c # delete_scan marker 0 cs)"

definition spec_delete_every :: "string \<Rightarrow> string \<Rightarrow> string" where
  "spec_delete_every marker s = delete_scan marker 0 s"

text \<open>A piece of text behind a fence, without the language tag \<open>json\<close> it may start with.\<close>

definition without_json_tag :: "string \<Rightarrow> string" where
  "without_json_tag p = (if prefix ''json'' p then drop 4 p else p)"

text \<open>
  What the first replacement of line 71 makes of a fence and the piece behind it: a
  fence with the tag is deleted, a plain fence stays for the second replacement.
\<close>

definition json_pass_piece :: "string \<Rightarrow> string" where
  "json_pass_piece p = (if prefix ''json'' p then drop 4 p else ''```'' @ p)"

text \<open>
  The text of a DOCX as the specification words it: the paragraphs in document order,
  a newline before every paragraph but the first.
\<close>

definition spec_docx_text :: "string list \<Rightarrow> string" where
  "spec_docx_text paras =
     (case paras of [] \<Rightarrow> [] | p # ps \<Rightarrow> p @ concat (map (\<lambda>q. CHR 0x0A # q) ps))"

section \<open>Concrete inputs\<close>

text \<open>
  Answers of the model: one whose flag contradicts the 70-point threshold, one with a
  score above 100, one with an empty name, one with a score of 90, one with an extra key
  that holds a fence marker, and one of 1200 opening brackets.
\<close>

definition answer_inconsistent :: string where
  \<open>answer_inconsistent =
     ''{"candidate_name": "Ada", "score": 50, "summary": "ok", "reasoning": "r", "is_recommended": true}''\<close>

definition answer_score_150 :: string where
  \<open>answer_score_150 =
     ''{"candidate_name": "Ada", "score": 150, "summary": "ok", "reasoning": "r", "is_recommended": true}''\<close>

definition answer_empty_name :: string where
  \<open>answer_empty_name =
     ''{"candidate_name": "", "score": 50, "summary": "ok", "reasoning": "r", "is_recommended": false}''\<close>

definition answer_high :: string where
  \<open>answer_high =
     ''{"candidate_name": "Bo", "score": 90, "summary": "ok", "reasoning": "r", "is_recommended": true}''\<close>

definition answer_fence_in_key :: string where
  \<open>answer_fence_in_key =
     ''{"candidate_name": "Ada", "score": 50, "summary": "ok", "reasoning": "r", "is_recommended": true, "sc```ore": 7}''\<close>

definition answer_fence_in_key_prepared :: string where
  \<open>answer_fence_in_key_prepared =
     ''{"candidate_name": "Ada", "score": 50, "summary": "ok", "reasoning": "r", "is_recommended": true, "score": 7}''\<close>

definition answer_deep :: string where
  "answer_deep = replicate 1200 CHR ''[''"

definition answer_object :: "string \<Rightarrow> int \<Rightarrow> bool \<Rightarrow> json" where
  "answer_object n s b =
     JObject [(''candidate_name'', JString n), (''score'', JInt s), (''summary'', JString ''ok''),
              (''reasoning'', JString ''r''), (''is_recommended'', JBool b)]"

text \<open>
  A library for the concrete inputs. \<open>json_loads\<close> parses the answers above as
  \<^verbatim>\<open>json.loads\<close> does: of the two \<open>score\<close> keys of the prepared fifth answer the last
  one counts, the 1200 brackets end in a \<^verbatim>\<open>RecursionError\<close>, and every other text is a
  syntax error. The conversions of pydantic reject, its error text is the one pydantic
  prints for a score above 100, every PDF has the pages \<open>ab\<close> and \<open>cd\<close>, every DOCX the
  paragraphs \<open>ab\<close> and \<open>cd\<close>.
\<close>

definition example_lib :: pylib where
  "example_lib =
     \<lparr>json_loads = (\<lambda>s.
        if s = answer_inconsistent then Inr (answer_object ''Ada'' 50 True)
        else if s = answer_score_150 then Inr (answer_object ''Ada'' 150 True)
        else if s = answer_empty_name then Inr (answer_object [] 50 False)
        else if s = answer_high then Inr (answer_object ''Bo'' 90 True)
        else if s = answer_fence_in_key_prepared then Inr (answer_object ''Ada'' 7 True)
        else if s = answer_deep then
          Inl (Exn RecursionError (''maximum recursion depth exceeded while decoding ''
                                   @ ''a JSON array from a unicode string''))
        else Inl (Exn JSONDecodeError ''Expecting value: line 1 column 1 (char 0)'')),
      py_str = (\<lambda>v. type_name v),
      lax_str = (\<lambda>v. None),
      lax_int = (\<lambda>v. None),
      lax_bool = (\<lambda>v. None),
      validation_error_str = (\<lambda>kw.
        ''1 validation error for CandidateAnalysis\<newline>score\<newline>''
        @ ''  Input should be less than or equal to 100''),
      pdf_page_texts = (\<lambda>b. Inr [''ab'', ''cd'']),
      docx_paragraph_texts = (\<lambda>b. Inr [''ab'', ''cd''])\<rparr>"

text \<open>A model client that answers every prompt with the same text.\<close>

definition answering :: "string \<Rightarrow> generate_content" where
  "answering raw = (\<lambda>sent prompt. Inr (Response (Inr raw)))"

text \<open>A model client that gives the first answer to its first prompt and the second after.\<close>

definition answering_in_turn :: "string \<Rightarrow> string \<Rightarrow> generate_content" where
  "answering_in_turn first second =
     (\<lambda>sent prompt. Inr (Response (Inr (if sent = [] then first else second))))"

definition world0 :: world where
  "world0 = \<lparr>prompts = [], ui = []\<rparr>"

definition upload_txt :: uploaded_file where
  "upload_txt = \<lparr>name = ''cv.txt'', read = [1, 2, 3]\<rparr>"

definition upload_pdf :: uploaded_file where
  "upload_pdf = \<lparr>name = ''cv.pdf'', read = [1, 2, 3]\<rparr>"

definition candidate :: "string \<Rightarrow> int \<Rightarrow> CandidateAnalysis" where
  "candidate n s =
     \<lparr>candidate_name = n, score = s, summary = [], reasoning = [], is_recommended = (70 \<le> s)\<rparr>"

section \<open>Facts about the string operations\<close>

lemma str_replace_no_occurrence:
  "old \<noteq> [] \<Longrightarrow> \<not> sublist old s \<Longrightarrow> str_replace old new s = s"
proof (induction s)
  case Nil
  then show ?case by simp
next
  case (Cons c cs)
  from Cons.prems have np: "\<not> prefix old (c # cs)" and ns: "\<not> sublist old cs"
    by (auto simp: sublist_Cons_right)
  with Cons show ?case by simp
qed

lemma str_replace_subseq: "subseq (str_replace old [] s) s"
proof (induction old "[] :: string" s rule: str_replace.induct)
  case (1 old)
  then show ?case by simp
next
  case (2 old c cs)
  show ?case
  proof (cases "old = []")
    case True
    with 2 show ?thesis by simp
  next
    case False
    show ?thesis
    proof (cases "prefix old (c # cs)")
      case True
      have "subseq (drop (length old) (c # cs)) (c # cs)"
        using suffix_drop suffix_imp_subseq by blast
      with 2(2)[OF False True]
      have "subseq (str_replace old [] (drop (length old) (c # cs))) (c # cs)"
        using subseq_order.order_trans by blast
      with False True show ?thesis by simp
    next
      case np: False
      with 2(3)[OF False np] False show ?thesis by simp
    qed
  qed
qed

text \<open>
  Behind a backquote that starts no fence, the text does not go on with two backquotes,
  and neither does what the replacement makes of it.
\<close>

lemma fence_head:
  assumes "\<not> prefix ''``'' cs"
  shows "\<not> prefix ''``'' (str_replace ''```'' [] cs)"
proof (cases cs)
  case Nil
  then show ?thesis by simp
next
  case (Cons x xs)
  show ?thesis
  proof (cases xs)
    case Nil
    with Cons show ?thesis by simp
  next
    case (Cons y ys)
    with \<open>cs = x # xs\<close> assms show ?thesis by auto
  qed
qed

lemma str_replace_fence_gone_aux:
  "old = ''```'' \<Longrightarrow> new = [] \<Longrightarrow> \<not> sublist old (str_replace old new s)"
proof (induction old new s rule: str_replace.induct)
  case (1 old new)
  then show ?case by simp
next
  case (2 old new c cs)
  from 2(4) have ne: "old \<noteq> []" by auto
  show ?case
  proof (cases "prefix old (c # cs)")
    case True
    from 2(2)[OF ne True 2(4,5)]
    have "\<not> sublist old (str_replace old new (drop (length old) (c # cs)))" .
    moreover have "str_replace old new (c # cs)
        = new @ str_replace old new (drop (length old) (c # cs))"
      using ne True by simp
    ultimately show ?thesis using 2(5) by simp
  next
    case False
    from 2(3)[OF ne False 2(4,5)] have ih: "\<not> sublist old (str_replace old new cs)" .
    have step: "str_replace old new (c # cs) = c # str_replace old new cs"
      using ne False by simp
    have "\<not> prefix old (c # str_replace old new cs)"
    proof (cases "c = CHR ''`''")
      case True
      with False 2(4) have "\<not> prefix ''``'' cs" by simp
      then have "\<not> prefix ''``'' (str_replace ''```'' [] cs)" by (rule fence_head)
      with 2(4,5) show ?thesis by simp
    next
      case False
      with 2(4) show ?thesis by simp
    qed
    with ih show ?thesis unfolding step by (simp only: sublist_Cons_right simp_thms)
  qed
qed

lemma str_replace_fence_gone: "\<not> sublist ''```'' (str_replace ''```'' [] s)"
  using str_replace_fence_gone_aux by blast

lemma fence_in_json_fence: "sublist ''```'' ''```json''"
proof -
  have "prefix ''```'' ''```json''" by simp
  then show ?thesis by (rule prefix_imp_sublist)
qed

lemma join_empty_sep: "join [] xs = concat xs"
  by (induction "[] :: string" xs rule: join.induct) simp_all

lemma join_newline: "join ''\<newline>'' xs = spec_docx_text xs"
proof (induction "''\<newline>''" xs rule: join.induct)
  case 1
  then show ?case by (simp add: spec_docx_text_def)
next
  case (2 x)
  then show ?case by (simp add: spec_docx_text_def)
next
  case (3 x y ys)
  then show ?case by (simp add: spec_docx_text_def)
qed

lemma endswith_suffix: "endswith s suf = suffix suf s"
proof
  assume "endswith s suf"
  then have "s = take (length s - length suf) s @ suf"
    unfolding endswith_def by (metis append_take_drop_id)
  then show "suffix suf s" by (rule suffixI)
next
  assume "suffix suf s"
  then obtain zs where "s = zs @ suf" by (rule suffixE)
  then show "endswith s suf" by (simp add: endswith_def)
qed

text \<open>The replacement by nothing deletes every occurrence, character by character.\<close>

lemma delete_scan_skip: "delete_scan marker k s = delete_scan marker 0 (drop k s)"
proof (induction s arbitrary: k)
  case Nil
  then show ?case by simp
next
  case (Cons c cs)
  then show ?case by (cases k) simp_all
qed

lemma str_replace_delete_every: "str_replace old [] s = spec_delete_every old s"
  unfolding spec_delete_every_def
proof (induction old "[] :: string" s rule: str_replace.induct)
  case (1 old)
  then show ?case by simp
next
  case (2 old c cs)
  show ?case
  proof (cases "old = []")
    case True
    with 2(1) show ?thesis by simp
  next
    case ne: False
    show ?thesis
    proof (cases "prefix old (c # cs)")
      case True
      have "delete_scan old (length old - 1) cs = delete_scan old 0 (drop (length old - 1) cs)"
        by (rule delete_scan_skip)
      moreover have "drop (length old - 1) cs = drop (length old) (c # cs)"
        using ne by (cases old) simp_all
      ultimately show ?thesis using 2(2)[OF ne True] ne True by simp
    next
      case False
      with 2(3)[OF ne False] ne show ?thesis by simp
    qed
  qed
qed

text \<open>A stretch of text without a backquote starts no marker and is copied.\<close>

lemma str_replace_copy:
  "CHR ''`'' \<notin> set a \<Longrightarrow> old = CHR ''`'' # old' \<Longrightarrow>
   str_replace old new (a @ s) = a @ str_replace old new s"
  by (induction a) auto

lemma fenced_pieces_shape:
  "concat (map (\<lambda>p. ''```'' @ p) ps) = [] \<or> prefix ''```'' (concat (map (\<lambda>p. ''```'' @ p) ps))"
  by (cases ps) simp_all

lemma no_tag_across:
  assumes "CHR ''`'' \<notin> set p" and "\<not> prefix ''json'' p" and "r = [] \<or> prefix ''```'' r"
  shows "\<not> prefix ''json'' (p @ r)"
proof
  assume "prefix ''json'' (p @ r)"
  with assms(2) obtain us where us: "''json'' = p @ us" and pr: "prefix us r"
    by (auto simp: prefix_append)
  from us assms(2) have "us \<noteq> []" by auto
  with pr assms(3) obtain u where u: "us = CHR ''`'' # u"
    by (cases us; cases r) auto
  with us have "CHR ''`'' \<in> set ''json''" by (metis in_set_conv_decomp)
  then show False by simp
qed

lemma json_pass_keeps_plain_fence:
  assumes "CHR ''`'' \<notin> set p" and "\<not> prefix ''json'' p" and "r = [] \<or> prefix ''```'' r"
  shows "str_replace ''```json'' [] (''```'' @ p @ r) = ''```'' @ str_replace ''```json'' [] (p @ r)"
proof -
  have n0: "\<not> prefix ''json'' (p @ r)" using assms by (rule no_tag_across)
  from assms(3) consider "r = []" | r' where "r = ''```'' @ r'"
    by (auto simp: prefix_def)
  then have n: "\<not> prefix ''`json'' (p @ r) \<and> \<not> prefix ''``json'' (p @ r)"
  proof cases
    case 1
    with assms(1) show ?thesis by (cases p) auto
  next
    case 2
    with assms(1) show ?thesis by (cases p) auto
  qed
  from n0 n show ?thesis by (cases "p @ r") auto
qed

lemma json_pass_pieces:
  "\<forall>p \<in> set ps. CHR ''`'' \<notin> set p \<Longrightarrow>
   str_replace ''```json'' [] (concat (map (\<lambda>p. ''```'' @ p) ps)) = concat (map json_pass_piece ps)"
proof (induction ps)
  case Nil
  then show ?case by simp
next
  case (Cons p ps)
  let ?r = "concat (map (\<lambda>p. ''```'' @ p) ps)"
  from Cons have ih: "str_replace ''```json'' [] ?r = concat (map json_pass_piece ps)"
    and bq: "CHR ''`'' \<notin> set p" by simp_all
  show ?case
  proof (cases "prefix ''json'' p")
    case True
    then obtain q where q: "p = ''json'' @ q" by (auto simp: prefix_def)
    with bq have bqq: "CHR ''`'' \<notin> set q" by simp
    have "str_replace ''```json'' [] (''```json'' @ q @ ?r) = str_replace ''```json'' [] (q @ ?r)"
      by simp
    also have "\<dots> = q @ str_replace ''```json'' [] ?r"
      using bqq by (rule str_replace_copy) simp
    finally have "str_replace ''```json'' [] (''```'' @ p @ ?r)
        = q @ concat (map json_pass_piece ps)"
      using ih q by simp
    moreover have "json_pass_piece p = q" using q by (simp add: json_pass_piece_def)
    ultimately show ?thesis by simp
  next
    case False
    have "str_replace ''```json'' [] (''```'' @ p @ ?r)
        = ''```'' @ str_replace ''```json'' [] (p @ ?r)"
      using bq False fenced_pieces_shape by (rule json_pass_keeps_plain_fence)
    also have "str_replace ''```json'' [] (p @ ?r) = p @ str_replace ''```json'' [] ?r"
      using bq by (rule str_replace_copy) simp
    finally have "str_replace ''```json'' [] (''```'' @ p @ ?r)
        = ''```'' @ p @ concat (map json_pass_piece ps)"
      using ih by simp
    moreover have "json_pass_piece p = ''```'' @ p" using False by (simp add: json_pass_piece_def)
    ultimately show ?thesis by simp
  qed
qed

lemma fence_pass_pieces:
  "\<forall>p \<in> set ps. CHR ''`'' \<notin> set p \<Longrightarrow>
   str_replace ''```'' [] (concat (map json_pass_piece ps)) = concat (map without_json_tag ps)"
proof (induction ps)
  case Nil
  then show ?case by simp
next
  case (Cons p ps)
  let ?r = "concat (map json_pass_piece ps)"
  from Cons have ih: "str_replace ''```'' [] ?r = concat (map without_json_tag ps)"
    and bq: "CHR ''`'' \<notin> set p" by simp_all
  have copy: "str_replace ''```'' [] (q @ ?r) = q @ str_replace ''```'' [] ?r"
    if "CHR ''`'' \<notin> set q" for q
    using that by (rule str_replace_copy) simp
  show ?case
  proof (cases "prefix ''json'' p")
    case True
    from bq have "CHR ''`'' \<notin> set (drop 4 p)" by (auto dest: in_set_dropD)
    from copy [OF this] ih
    have "str_replace ''```'' [] (drop 4 p @ ?r) = drop 4 p @ concat (map without_json_tag ps)"
      by simp
    moreover have "json_pass_piece p = drop 4 p" "without_json_tag p = drop 4 p"
      using True by (simp_all add: json_pass_piece_def without_json_tag_def)
    ultimately show ?thesis by simp
  next
    case False
    have "str_replace ''```'' [] (''```'' @ p @ ?r) = str_replace ''```'' [] (p @ ?r)"
      by simp
    with copy [OF bq] ih
    have "str_replace ''```'' [] (''```'' @ p @ ?r) = p @ concat (map without_json_tag ps)"
      by simp
    moreover have "json_pass_piece p = ''```'' @ p" "without_json_tag p = p"
      using False by (simp_all add: json_pass_piece_def without_json_tag_def)
    ultimately show ?thesis by simp
  qed
qed

section \<open>The response text (line 71)\<close>

text \<open>
  Claim C2, as stated, fails: the two \<^verbatim>\<open>replace\<close> calls of line 71 delete a fence marker
  wherever it stands. Here the marker sits inside a JSON string value, the text has no
  surrounding whitespace and no leading or trailing marker, and the code still changes it,
  while the preparation worded by the specification leaves it alone.
\<close>

theorem response_text_inner_fence_counterexample:
  \<open>response_text ''{"reasoning": "a```b"}'' = ''{"reasoning": "ab"}''
   \<and> spec_response_text ''{"reasoning": "a```b"}'' = ''{"reasoning": "a```b"}''\<close>
  by (simp add: response_text_def spec_response_text_def strip_def isspace_def endswith_def)

text \<open>
  Claim C2, amended: the preparation changes the text only by trimming the surrounding
  whitespace and then deleting every occurrence of the marker \<^verbatim>\<open>```json\<close> and, from what
  is left, every occurrence of the marker \<^verbatim>\<open>```\<close>, wherever they stand; every other
  character is kept, in order. So no \<^verbatim>\<open>```\<close> is left in the prepared text, a trimmed text
  without \<^verbatim>\<open>```\<close> is passed on unchanged, and a trimmed text whose backquotes all belong
  to fences is passed on as its pieces between the fences, a piece that follows a fence
  losing the tag \<open>json\<close> it may start with.
\<close>

theorem response_text_removes_every_fence:
  "response_text raw = spec_delete_every ''```'' (spec_delete_every ''```json'' (strip raw))
   \<and> subseq (response_text raw) (strip raw)
   \<and> \<not> sublist ''```'' (response_text raw)
   \<and> (\<not> sublist ''```'' (strip raw) \<longrightarrow> response_text raw = strip raw)
   \<and> (\<forall>a ps. CHR ''`'' \<notin> set a \<and> (\<forall>p \<in> set ps. CHR ''`'' \<notin> set p)
          \<and> strip raw = a @ concat (map (\<lambda>p. ''```'' @ p) ps)
        \<longrightarrow> response_text raw = a @ concat (map without_json_tag ps))"
proof -
  have eq: "response_text raw
      = spec_delete_every ''```'' (spec_delete_every ''```json'' (strip raw))"
    by (simp add: response_text_def str_replace_delete_every)
  have "subseq (response_text raw) (str_replace ''```json'' [] (strip raw))"
    unfolding response_text_def by (rule str_replace_subseq)
  moreover have "subseq (str_replace ''```json'' [] (strip raw)) (strip raw)"
    by (rule str_replace_subseq)
  ultimately have sub: "subseq (response_text raw) (strip raw)"
    using subseq_order.order_trans by blast
  have gone: "\<not> sublist ''```'' (response_text raw)"
    unfolding response_text_def by (rule str_replace_fence_gone)
  have same: "response_text raw = strip raw" if nf: "\<not> sublist ''```'' (strip raw)"
  proof -
    have "\<not> sublist ''```json'' (strip raw)"
    proof
      assume "sublist ''```json'' (strip raw)"
      with fence_in_json_fence have "sublist ''```'' (strip raw)"
        using sublist_order.order_trans by blast
      with nf show False by simp
    qed
    then have "str_replace ''```json'' [] (strip raw) = strip raw"
      by (simp add: str_replace_no_occurrence)
    moreover from nf have "str_replace ''```'' [] (strip raw) = strip raw"
      by (simp add: str_replace_no_occurrence)
    ultimately show ?thesis by (simp add: response_text_def)
  qed
  have pieces: "response_text raw = a @ concat (map without_json_tag ps)"
    if a: "CHR ''`'' \<notin> set a" and ps: "\<forall>p \<in> set ps. CHR ''`'' \<notin> set p"
      and t: "strip raw = a @ concat (map (\<lambda>p. ''```'' @ p) ps)" for a ps
  proof -
    have "str_replace ''```json'' [] (strip raw)
        = a @ str_replace ''```json'' [] (concat (map (\<lambda>p. ''```'' @ p) ps))"
      unfolding t using a by (rule str_replace_copy) simp
    also have "\<dots> = a @ concat (map json_pass_piece ps)"
      by (simp only: json_pass_pieces [OF ps])
    finally have "response_text raw = str_replace ''```'' [] (a @ concat (map json_pass_piece ps))"
      by (simp add: response_text_def)
    also have "\<dots> = a @ str_replace ''```'' [] (concat (map json_pass_piece ps))"
      using a by (rule str_replace_copy) simp
    also have "\<dots> = a @ concat (map without_json_tag ps)"
      by (simp only: fence_pass_pieces [OF ps])
    finally show ?thesis .
  qed
  from eq sub gone same pieces show ?thesis by blast
qed

theorem response_text_removes_every_fence_witness:
  \<open>\<not> sublist ''```'' (strip '' {"score": 5}  '')
   \<and> response_text '' {"score": 5}  '' = ''{"score": 5}''
   \<and> CHR ''`'' \<notin> set ''Here: ''
   \<and> CHR ''`'' \<notin> set ''json{"score": 5}'' \<and> CHR ''`'' \<notin> set ([] :: string)
   \<and> strip ''Here: ```json{"score": 5}``` ''
       = ''Here: '' @ concat (map (\<lambda>p. ''```'' @ p) [''json{"score": 5}'', []])
   \<and> response_text ''Here: ```json{"score": 5}``` '' = ''Here: {"score": 5}''\<close>
proof -
  have s: \<open>strip '' {"score": 5}  '' = ''{"score": 5}''\<close>
    by (simp add: strip_def isspace_def)
  have h: \<open>\<not> sublist ''```'' (strip '' {"score": 5}  '')\<close>
    unfolding s by (simp add: sublist_Cons_right)
  from response_text_removes_every_fence [of \<open>'' {"score": 5}  ''\<close>] h
  have r1: \<open>response_text '' {"score": 5}  '' = ''{"score": 5}''\<close>
    unfolding s by blast
  have a: \<open>CHR ''`'' \<notin> set ''Here: ''\<close> by simp
  have p: \<open>\<forall>p \<in> set [''json{"score": 5}'', []]. CHR ''`'' \<notin> set p\<close> by simp
  have t: \<open>strip ''Here: ```json{"score": 5}``` ''
       = ''Here: '' @ concat (map (\<lambda>p. ''```'' @ p) [''json{"score": 5}'', []])\<close>
    by (simp add: strip_def isspace_def)
  from response_text_removes_every_fence [of \<open>''Here: ```json{"score": 5}``` ''\<close>] a p t
  have \<open>response_text ''Here: ```json{"score": 5}``` ''
      = ''Here: '' @ concat (map without_json_tag [''json{"score": 5}'', []])\<close>
    by blast
  then have r2: \<open>response_text ''Here: ```json{"score": 5}``` '' = ''Here: {"score": 5}''\<close>
    by (simp add: without_json_tag_def)
  from h r1 a t r2 show ?thesis by simp
qed

section \<open>Text extraction (parse_resume)\<close>

lemma docx_is_not_pdf: "suffix ''.docx'' filename \<Longrightarrow> \<not> suffix ''.pdf'' filename"
proof
  assume d: "suffix ''.docx'' filename" and p: "suffix ''.pdf'' filename"
  from d obtain us where u: "filename = us @ ''.docx''" by (rule suffixE)
  from p obtain vs where v: "filename = vs @ ''.pdf''" by (rule suffixE)
  from u have "last filename = CHR ''x''" by simp
  moreover from v have "last filename = CHR ''f''" by simp
  ultimately show False by simp
qed

text \<open>
  Claim C7: a filename that ends neither in \<^verbatim>\<open>.pdf\<close> nor in \<^verbatim>\<open>.docx\<close> (compared
  character by character, so case-sensitively) gives the empty text, whatever the bytes;
  no library is called, nothing is shown and nothing is raised.
\<close>

theorem parse_resume_other_extension:
  "\<not> suffix ''.pdf'' filename \<Longrightarrow> \<not> suffix ''.docx'' filename
   \<Longrightarrow> parse_resume lib file_bytes filename w = ([], w)"
  by (simp add: parse_resume_def endswith_suffix)

theorem parse_resume_other_extension_witness:
  "\<not> suffix ''.pdf'' ''cv.PDF'' \<and> \<not> suffix ''.docx'' ''cv.PDF''
   \<and> parse_resume example_lib [1, 2, 3] ''cv.PDF'' world0 = ([], world0)"
proof -
  have h1: "\<not> suffix ''.pdf'' ''cv.PDF''" by (simp add: suffix_to_prefix)
  have h2: "\<not> suffix ''.docx'' ''cv.PDF''" by (simp add: suffix_to_prefix)
  from parse_resume_other_extension [OF h1 h2] h1 h2 show ?thesis by simp
qed

text \<open>
  Claim C8: when the library reads the document, a \<^verbatim>\<open>.pdf\<close> gives the page texts
  concatenated in page order with nothing between them, and a \<^verbatim>\<open>.docx\<close> gives the
  paragraph texts in document order joined by newlines; nothing is shown to the user.
\<close>

theorem parse_resume_well_formed:
  "(suffix ''.pdf'' filename \<and> pdf_page_texts lib file_bytes = Inr pages
      \<longrightarrow> parse_resume lib file_bytes filename w = (concat pages, w))
   \<and> (suffix ''.docx'' filename \<and> docx_paragraph_texts lib file_bytes = Inr paras
      \<longrightarrow> parse_resume lib file_bytes filename w = (spec_docx_text paras, w))"
proof (intro conjI impI)
  assume "suffix ''.pdf'' filename \<and> pdf_page_texts lib file_bytes = Inr pages"
  then show "parse_resume lib file_bytes filename w = (concat pages, w)"
    by (simp add: parse_resume_def endswith_suffix join_empty_sep)
next
  assume a: "suffix ''.docx'' filename \<and> docx_paragraph_texts lib file_bytes = Inr paras"
  then have "\<not> suffix ''.pdf'' filename" by (simp add: docx_is_not_pdf)
  with a show "parse_resume lib file_bytes filename w = (spec_docx_text paras, w)"
    by (simp add: parse_resume_def endswith_suffix join_newline)
qed

theorem parse_resume_well_formed_witness:
  "suffix ''.pdf'' ''cv.pdf'' \<and> pdf_page_texts example_lib [1, 2, 3] = Inr [''ab'', ''cd'']
   \<and> parse_resume example_lib [1, 2, 3] ''cv.pdf'' world0 = (''abcd'', world0)
   \<and> suffix ''.docx'' ''cv.docx''
   \<and> docx_paragraph_texts example_lib [1, 2, 3] = Inr [''ab'', ''cd'']
   \<and> parse_resume example_lib [1, 2, 3] ''cv.docx'' world0 = (''ab\<newline>cd'', world0)"
proof -
  have p1: "suffix ''.pdf'' ''cv.pdf''" by (simp add: suffix_to_prefix)
  have p2: "pdf_page_texts example_lib [1, 2, 3] = Inr [''ab'', ''cd'']"
    by (simp add: example_lib_def)
  have d1: "suffix ''.docx'' ''cv.docx''" by (simp add: suffix_to_prefix)
  have d2: "docx_paragraph_texts example_lib [1, 2, 3] = Inr [''ab'', ''cd'']"
    by (simp add: example_lib_def)
  note t = parse_resume_well_formed [of "''cv.pdf''" example_lib "[1, 2, 3]" "[''ab'', ''cd'']"
      world0 "[]"]
  note u = parse_resume_well_formed [of "''cv.docx''" example_lib "[1, 2, 3]" "[]"
      world0 "[''ab'', ''cd'']"]
  from t p1 p2 have r1: "parse_resume example_lib [1, 2, 3] ''cv.pdf'' world0 = (''abcd'', world0)"
    by simp
  from u d1 d2 have r2: "parse_resume example_lib [1, 2, 3] ''cv.docx'' world0
      = (''ab\<newline>cd'', world0)"
    by (simp add: spec_docx_text_def)
  from p1 p2 r1 d1 d2 r2 show ?thesis by blast
qed

section \<open>The ranking (line 140)\<close>

lemma sorted_py_reverse_stable:
  "filter (\<lambda>a. key a = k) (sorted_py key True xs) = filter (\<lambda>a. key a = k) xs"
proof -
  have "filter (\<lambda>a. key a = k) (sorted_py key True xs)
      = rev (filter (\<lambda>a. key a = k) (sort_key key (rev xs)))"
    by (simp add: sorted_py_def rev_filter)
  also have "\<dots> = rev (filter (\<lambda>a. key a = k) (rev xs))"
    by (simp only: sort_key_stable)
  also have "\<dots> = filter (\<lambda>a. key a = k) xs"
    by (simp add: rev_filter)
  finally show ?thesis .
qed

lemma sorted_py_reverse_descending:
  "sorted_wrt (\<lambda>a b. key b \<le> key a) (sorted_py key True xs)"
proof -
  have "sorted (map key (sort_key key (rev xs)))" by (rule sorted_sort_key)
  then have "sorted_wrt (\<lambda>a b. key a \<le> key b) (sort_key key (rev xs))"
    by (simp add: sorted_map)
  then show ?thesis by (simp add: sorted_py_def sorted_wrt_rev)
qed

lemma ranked_candidates_example:
  "ranked_candidates [candidate ''a'' 40, candidate ''b'' 90, candidate ''c'' 40]
   = [candidate ''b'' 90, candidate ''a'' 40, candidate ''c'' 40]"
  by (simp add: ranked_candidates_def sorted_py_def candidate_def)

section \<open>The analysis of one resume (analyze_with_gemini)\<close>

lemma validate_score_range:
  "validate_score lib v = Some s \<Longrightarrow> 0 \<le> s \<and> s \<le> 100"
  by (auto simp: validate_score_def split: option.splits if_splits)

lemma validate_fields_score:
  "validate_fields lib kw = Some a \<Longrightarrow> 0 \<le> score a \<and> score a \<le> 100"
  by (auto simp: validate_fields_def dest: validate_score_range split: Option.bind_splits)

lemma validate_fields_missing:
  "validate_score lib (map_of kw ''score'') = None
   \<or> map_of kw ''candidate_name'' = None \<or> map_of kw ''summary'' = None
   \<or> map_of kw ''reasoning'' = None \<or> map_of kw ''is_recommended'' = None
   \<Longrightarrow> validate_fields lib kw = None"
  by (auto simp: validate_fields_def validate_str_def validate_bool_def
      split: Option.bind_splits)

text \<open>The normalisation touches the key \<open>reasoning\<close> only, and only where it is present.\<close>

lemma normalize_reasoning_other:
  "k \<noteq> ''reasoning'' \<Longrightarrow> map_of (normalize_reasoning lib d) k = map_of d k"
  by (auto simp: normalize_reasoning_def Let_def update_conv'
      split: option.splits json.splits)

lemma normalize_reasoning_missing:
  "map_of d ''reasoning'' = None \<Longrightarrow> map_of (normalize_reasoning lib d) ''reasoning'' = None"
  by (simp add: normalize_reasoning_def)

lemma normalize_reasoning_text:
  "map_of d ''reasoning'' = Some (JString t)
   \<Longrightarrow> map_of (normalize_reasoning lib d) ''reasoning'' = Some (JString t)"
  by (simp add: normalize_reasoning_def)

lemma normalize_reasoning_dict:
  "map_of d ''reasoning'' = Some (JObject rd)
   \<Longrightarrow> \<exists>t. map_of (normalize_reasoning lib d) ''reasoning'' = Some (JString t)"
  by (simp add: normalize_reasoning_def Let_def update_conv')

lemma try_body_response:
  "try_body lib (Inr (Response (Inr raw))) =
     (case json_loads lib (response_text raw) of
        Inl e \<Rightarrow> Inl e
      | Inr (JObject response_json) \<Rightarrow>
          CandidateAnalysis_init lib (normalize_reasoning lib response_json)
      | Inr v \<Rightarrow>
          Inl (Exn AttributeError
                ([CHR 0x27] @ type_name v @ [CHR 0x27]
                 @ '' object has no attribute '' @ [CHR 0x27] @ ''get'' @ [CHR 0x27])))"
  by (simp add: try_body_def)

text \<open>A text without whitespace and without backquotes is prepared to itself.\<close>

lemma strip_no_space: "\<forall>c \<in> set s. \<not> isspace c \<Longrightarrow> strip s = s"
proof -
  assume ns: "\<forall>c \<in> set s. \<not> isspace c"
  have keep: "dropWhile isspace t = t" if "\<forall>c \<in> set t. \<not> isspace c" for t
    using that by (cases t) simp_all
  from ns have "dropWhile isspace s = s" by (rule keep)
  moreover from ns have "dropWhile isspace (rev s) = rev s" by (intro keep) simp
  ultimately show ?thesis by (simp add: strip_def)
qed

lemma response_text_plain:
  assumes "\<forall>c \<in> set s. \<not> isspace c" and "CHR ''`'' \<notin> set s"
  shows "response_text s = s"
proof -
  have nf: "\<not> sublist ''```'' s"
  proof
    assume "sublist ''```'' s"
    then have "set ''```'' \<subseteq> set s" by (rule set_mono_sublist)
    with assms(2) show False by simp
  qed
  have "\<not> sublist ''```json'' s"
  proof
    assume "sublist ''```json'' s"
    with fence_in_json_fence have "sublist ''```'' s"
      using sublist_order.order_trans by blast
    with nf show False by simp
  qed
  with nf assms(1) show ?thesis
    by (simp add: response_text_def strip_no_space str_replace_no_occurrence)
qed

lemma answer_deep_chars: "c \<in> set answer_deep \<Longrightarrow> c = CHR ''[''"
  by (simp add: answer_deep_def)

lemma answer_deep_differs: "c \<in> set s \<Longrightarrow> c \<noteq> CHR ''['' \<Longrightarrow> s \<noteq> answer_deep"
  using answer_deep_chars by blast

lemma response_text_answer_deep: "response_text answer_deep = answer_deep"
proof (rule response_text_plain)
  show "\<forall>c \<in> set answer_deep. \<not> isspace c"
    by (auto dest!: answer_deep_chars simp: isspace_def)
  show "CHR ''`'' \<notin> set answer_deep"
    by (auto dest!: answer_deep_chars)
qed

lemma example_lib_loads_deep:
  "json_loads example_lib answer_deep
     = Inl (Exn RecursionError (''maximum recursion depth exceeded while decoding ''
                                @ ''a JSON array from a unicode string''))"
proof -
  have ne: "answer_deep \<noteq> s" if "CHR ''{'' \<in> set s" for s
    using that answer_deep_differs [of "CHR ''{''" s] by auto
  have "answer_deep \<noteq> answer_inconsistent" "answer_deep \<noteq> answer_score_150"
    "answer_deep \<noteq> answer_empty_name" "answer_deep \<noteq> answer_high"
    "answer_deep \<noteq> answer_fence_in_key_prepared"
    by (rule ne, simp add: answer_inconsistent_def answer_score_150_def answer_empty_name_def
        answer_high_def answer_fence_in_key_prepared_def)+
  then show ?thesis by (simp add: example_lib_def)
qed

text \<open>
  Claim C1, as stated, fails: \<^verbatim>\<open>json.loads\<close> does not reject every invalid text with a
  \<^verbatim>\<open>JSONDecodeError\<close>. On 1200 opening brackets, which are no JSON, it raises
  \<^verbatim>\<open>RecursionError\<close>; the handler of line 88 runs, and the reasoning of the record holds
  the text of the exception and not the raw response.
\<close>

theorem invalid_json_counterexample:
  "json_loads example_lib (response_text answer_deep)
     = Inl (Exn RecursionError (''maximum recursion depth exceeded while decoding ''
                                @ ''a JSON array from a unicode string''))
   \<and> analyze_with_gemini example_lib (answering answer_deep) ''jd'' ''cv'' world0
     = (Inr \<lparr>candidate_name = ''Unknown/Error'', score = 0, summary = ''Analysis failed !'',
             reasoning = ''An unexpected error occurred : ''
               @ ''maximum recursion depth exceeded while decoding ''
               @ ''a JSON array from a unicode string'',
             is_recommended = False\<rparr>,
        \<lparr>prompts = [PROMPT_TEMPLATE_format ''jd'' ''cv''],
         ui = [StError (''An unexpected error occurred during analysis : ''
               @ ''maximum recursion depth exceeded while decoding ''
               @ ''a JSON array from a unicode string'')]\<rparr>)
   \<and> \<not> sublist answer_deep
         (''An unexpected error occurred : ''
          @ ''maximum recursion depth exceeded while decoding ''
          @ ''a JSON array from a unicode string'')"
proof -
  let ?m = "''maximum recursion depth exceeded while decoding ''
            @ ''a JSON array from a unicode string''"
  have l: "json_loads example_lib (response_text answer_deep) = Inl (Exn RecursionError ?m)"
    by (simp only: response_text_answer_deep example_lib_loads_deep)
  then have "try_body example_lib (Inr (Response (Inr answer_deep))) = Inl (Exn RecursionError ?m)"
    by (simp only: try_body_response sum.case)
  then have r: "analyze_with_gemini example_lib (answering answer_deep) ''jd'' ''cv'' world0
     = (Inr \<lparr>candidate_name = ''Unknown/Error'', score = 0, summary = ''Analysis failed !'',
             reasoning = ''An unexpected error occurred : '' @ ?m, is_recommended = False\<rparr>,
        \<lparr>prompts = [PROMPT_TEMPLATE_format ''jd'' ''cv''],
         ui = [StError (''An unexpected error occurred during analysis : '' @ ?m)]\<rparr>)"
    by (simp add: analyze_with_gemini_def Let_def answering_def world0_def
        unexpected_error_handler_def emit_def)
  have "\<not> sublist answer_deep (''An unexpected error occurred : '' @ ?m)"
  proof
    assume "sublist answer_deep (''An unexpected error occurred : '' @ ?m)"
    then have "length answer_deep \<le> length (''An unexpected error occurred : '' @ ?m)"
      by (rule sublist_length_le)
    then show False by (simp add: answer_deep_def)
  qed
  with l r show ?thesis by (intro conjI)
qed

text \<open>
  Claim C1, amended: when \<^verbatim>\<open>json.loads\<close> raises on the prepared text of a response, the
  analysis returns a record (no exception leaves it) named \<open>Unknown/Error\<close>, with score 0
  and not recommended, and one error naming the failure is shown. If the exception is a
  \<^verbatim>\<open>JSONDecodeError\<close> (or a \<^verbatim>\<open>TypeError\<close> or \<^verbatim>\<open>KeyError\<close>), the reasoning is the raw
  response text behind a fixed lead; if it is any other exception, the reasoning is the
  text of the exception behind a fixed lead.
\<close>

theorem json_loads_failure_fallback:
  assumes "model (prompts w) (PROMPT_TEMPLATE_format job_description resume_text)
             = Inr (Response (Inr raw))"
    and "json_loads lib (response_text raw) = Inl e"
  shows "\<exists>a w'. analyze_with_gemini lib model job_description resume_text w = (Inr a, w')
           \<and> candidate_name a = ''Unknown/Error'' \<and> score a = 0 \<and> \<not> is_recommended a
           \<and> prompts w' = prompts w @ [PROMPT_TEMPLATE_format job_description resume_text]
           \<and> (cls e \<in> {JSONDecodeError, TypeError, KeyError} \<longrightarrow>
                reasoning a = ''Failed to parse model output, raw response : '' @ raw
                \<and> sublist raw (reasoning a)
                \<and> ui w' = ui w @ [StError (''Error parsing Gemini'' @ [CHR 0x27]
                       @ ''s JSON response : '' @ msg e
                       @ '', the model might have returned an invalid format !'')])
           \<and> (cls e \<notin> {JSONDecodeError, TypeError, KeyError} \<longrightarrow>
                reasoning a = ''An unexpected error occurred : '' @ msg e
                \<and> ui w' = ui w @ [StError (''An unexpected error occurred during analysis : ''
                       @ msg e)])"
proof -
  have b: "try_body lib (Inr (Response (Inr raw))) = Inl e"
    using assms(2) by (simp add: try_body_response)
  have s: "sublist raw (''Failed to parse model output, raw response : '' @ raw)"
    by (rule sublist_append_leftI)
  show ?thesis
  proof (cases "cls e \<in> {JSONDecodeError, TypeError, KeyError}")
    case True
    with b s assms(1) show ?thesis
      by (simp add: analyze_with_gemini_def Let_def format_error_handler_def emit_def)
  next
    case False
    with b assms(1) show ?thesis
      by (simp add: analyze_with_gemini_def Let_def unexpected_error_handler_def emit_def)
  qed
qed

theorem json_loads_failure_fallback_witness:
  "answering ''Sorry, no JSON'' (prompts world0) (PROMPT_TEMPLATE_format ''jd'' ''cv'')
     = Inr (Response (Inr ''Sorry, no JSON''))
   \<and> json_loads example_lib (response_text ''Sorry, no JSON'')
     = Inl (Exn JSONDecodeError ''Expecting value: line 1 column 1 (char 0)'')
   \<and> (\<exists>a w'. analyze_with_gemini example_lib (answering ''Sorry, no JSON'') ''jd'' ''cv'' world0
           = (Inr a, w')
        \<and> candidate_name a = ''Unknown/Error'' \<and> score a = 0 \<and> \<not> is_recommended a
        \<and> reasoning a = ''Failed to parse model output, raw response : Sorry, no JSON''
        \<and> ui w' = [StError (''Error parsing Gemini'' @ [CHR 0x27]
               @ ''s JSON response : Expecting value: line 1 column 1 (char 0)''
               @ '', the model might have returned an invalid format !'')])
   \<and> answering answer_deep (prompts world0) (PROMPT_TEMPLATE_format ''jd'' ''cv'')
     = Inr (Response (Inr answer_deep))
   \<and> (\<exists>a w'. analyze_with_gemini example_lib (answering answer_deep) ''jd'' ''cv'' world0
           = (Inr a, w')
        \<and> candidate_name a = ''Unknown/Error'' \<and> score a = 0 \<and> \<not> is_recommended a
        \<and> reasoning a = ''An unexpected error occurred : ''
               @ ''maximum recursion depth exceeded while decoding ''
               @ ''a JSON array from a unicode string'')"
proof -
  have h1: "answering ''Sorry, no JSON'' (prompts world0) (PROMPT_TEMPLATE_format ''jd'' ''cv'')
     = Inr (Response (Inr ''Sorry, no JSON''))"
    by (simp add: answering_def)
  have t: "response_text ''Sorry, no JSON'' = ''Sorry, no JSON''"
    by (simp add: response_text_def strip_def isspace_def)
  have d: "''Sorry, no JSON'' \<noteq> answer_deep"
    by (rule answer_deep_differs [of "CHR ''S''"]) simp_all
  have h2: "json_loads example_lib (response_text ''Sorry, no JSON'')
     = Inl (Exn JSONDecodeError ''Expecting value: line 1 column 1 (char 0)'')"
    unfolding t using d
    by (simp add: example_lib_def answer_inconsistent_def answer_score_150_def
        answer_empty_name_def answer_high_def answer_fence_in_key_prepared_def)
  have g1: "answering answer_deep (prompts world0) (PROMPT_TEMPLATE_format ''jd'' ''cv'')
     = Inr (Response (Inr answer_deep))"
    by (simp add: answering_def)
  have g2: "json_loads example_lib (response_text answer_deep)
     = Inl (Exn RecursionError (''maximum recursion depth exceeded while decoding ''
                                @ ''a JSON array from a unicode string''))"
    by (simp only: response_text_answer_deep example_lib_loads_deep)
  from json_loads_failure_fallback [where model = "answering ''Sorry, no JSON''"
      and w = world0 and lib = example_lib, OF h1 h2]
  obtain a w' where
    "analyze_with_gemini example_lib (answering ''Sorry, no JSON'') ''jd'' ''cv'' world0
       = (Inr a, w')"
    "candidate_name a = ''Unknown/Error''" "score a = 0" "\<not> is_recommended a"
    "reasoning a = ''Failed to parse model output, raw response : Sorry, no JSON''"
    "ui w' = [StError (''Error parsing Gemini'' @ [CHR 0x27]
               @ ''s JSON response : Expecting value: line 1 column 1 (char 0)''
               @ '', the model might have returned an invalid format !'')]"
    by (auto simp: world0_def)
  then have c1: "\<exists>a w'. analyze_with_gemini example_lib (answering ''Sorry, no JSON'') ''jd'' ''cv'' world0
           = (Inr a, w')
        \<and> candidate_name a = ''Unknown/Error'' \<and> score a = 0 \<and> \<not> is_recommended a
        \<and> reasoning a = ''Failed to parse model output, raw response : Sorry, no JSON''
        \<and> ui w' = [StError (''Error parsing Gemini'' @ [CHR 0x27]
               @ ''s JSON response : Expecting value: line 1 column 1 (char 0)''
               @ '', the model might have returned an invalid format !'')]"
    by blast
  from json_loads_failure_fallback [where model = "answering answer_deep"
      and w = world0 and lib = example_lib, OF g1 g2]
  obtain b v' where
    "analyze_with_gemini example_lib (answering answer_deep) ''jd'' ''cv'' world0 = (Inr b, v')"
    "candidate_name b = ''Unknown/Error''" "score b = 0" "\<not> is_recommended b"
    "reasoning b = ''An unexpected error occurred : ''
               @ ''maximum recursion depth exceeded while decoding ''
               @ ''a JSON array from a unicode string''"
    by auto
  then have c2: "\<exists>a w'. analyze_with_gemini example_lib (answering answer_deep) ''jd'' ''cv'' world0
           = (Inr a, w')
        \<and> candidate_name a = ''Unknown/Error'' \<and> score a = 0 \<and> \<not> is_recommended a
        \<and> reasoning a = ''An unexpected error occurred : ''
               @ ''maximum recursion depth exceeded while decoding ''
               @ ''a JSON array from a unicode string''"
    by blast
  from h1 h2 c1 g1 c2 show ?thesis by (intro conjI)
qed

text \<open>The analysis of an answer that the library parses to a well-formed object.\<close>

lemma analyze_accepts:
  assumes "model (prompts w) (PROMPT_TEMPLATE_format job_description resume_text)
             = Inr (Response (Inr raw))"
    and "json_loads lib (response_text raw) = Inr (answer_object n s b)"
    and "0 \<le> s" and "s \<le> 100"
  shows "analyze_with_gemini lib model job_description resume_text w
           = (Inr \<lparr>candidate_name = n, score = s, summary = ''ok'', reasoning = ''r'',
                   is_recommended = b\<rparr>,
              w\<lparr>prompts := prompts w @ [PROMPT_TEMPLATE_format job_description resume_text]\<rparr>)"
proof -
  have "validate_fields lib
          (normalize_reasoning lib
             [(''candidate_name'', JString n), (''score'', JInt s),
              (''summary'', JString ''ok''), (''reasoning'', JString ''r''),
              (''is_recommended'', JBool b)])
      = Some \<lparr>candidate_name = n, score = s, summary = ''ok'', reasoning = ''r'',
             is_recommended = b\<rparr>"
    using assms(3,4)
    by (simp add: validate_fields_def normalize_reasoning_def validate_str_def
        validate_score_def validate_int_def validate_bool_def)
  then have "try_body lib (Inr (Response (Inr raw)))
      = Inr \<lparr>candidate_name = n, score = s, summary = ''ok'', reasoning = ''r'',
             is_recommended = b\<rparr>"
    using assms(2) by (simp add: try_body_response answer_object_def CandidateAnalysis_init_def)
  then show ?thesis
    using assms(1) by (simp add: analyze_with_gemini_def Let_def)
qed

lemma example_lib_loads_inconsistent:
  "json_loads example_lib (response_text answer_inconsistent) = Inr (answer_object ''Ada'' 50 True)"
proof -
  have "response_text answer_inconsistent = answer_inconsistent"
    by (simp add: response_text_def strip_def isspace_def answer_inconsistent_def)
  then show ?thesis by (simp add: example_lib_def)
qed

lemma example_lib_loads_score_150:
  "json_loads example_lib (response_text answer_score_150) = Inr (answer_object ''Ada'' 150 True)"
proof -
  have "response_text answer_score_150 = answer_score_150"
    by (simp add: response_text_def strip_def isspace_def answer_score_150_def)
  then show ?thesis
    by (simp add: example_lib_def answer_score_150_def answer_inconsistent_def)
qed

lemma example_lib_loads_empty_name:
  "json_loads example_lib (response_text answer_empty_name) = Inr (answer_object [] 50 False)"
proof -
  have "response_text answer_empty_name = answer_empty_name"
    by (simp add: response_text_def strip_def isspace_def answer_empty_name_def)
  then show ?thesis
    by (simp add: example_lib_def answer_score_150_def answer_inconsistent_def
        answer_empty_name_def)
qed

lemma example_lib_loads_high:
  "json_loads example_lib (response_text answer_high) = Inr (answer_object ''Bo'' 90 True)"
proof -
  have "response_text answer_high = answer_high"
    by (simp add: response_text_def strip_def isspace_def answer_high_def)
  then show ?thesis
    by (simp add: example_lib_def answer_score_150_def answer_inconsistent_def
        answer_empty_name_def answer_high_def)
qed

lemma response_text_fence_in_key:
  "response_text answer_fence_in_key = answer_fence_in_key_prepared"
  by (simp add: response_text_def strip_def isspace_def answer_fence_in_key_def
      answer_fence_in_key_prepared_def)

lemma example_lib_loads_fence_in_key:
  "json_loads example_lib (response_text answer_fence_in_key) = Inr (answer_object ''Ada'' 7 True)"
  unfolding response_text_fence_in_key
  by (simp add: example_lib_def answer_score_150_def answer_inconsistent_def
      answer_empty_name_def answer_high_def answer_fence_in_key_prepared_def)

lemma answering_response:
  "answering raw (prompts w) (PROMPT_TEMPLATE_format job_description resume_text)
     = Inr (Response (Inr raw))"
  by (simp add: answering_def)

text \<open>
  Claim C4, as stated, fails: what is validated is not the response but the object that
  \<^verbatim>\<open>json.loads\<close> makes of the text prepared by line 71. This response is valid JSON, has
  all fields, a score of 50 and a flag; its extra key holds a fence marker, the
  preparation turns that key into a second \<open>score\<close>, of which \<^verbatim>\<open>json.loads\<close> keeps the last,
  and the record returned has the score 7.
\<close>

theorem flag_not_checked_counterexample:
  \<open>answer_fence_in_key =
     ''{"candidate_name": "Ada", "score": 50, "summary": "ok", "reasoning": "r", "is_recommended": true, "sc```ore": 7}''
   \<and> response_text answer_fence_in_key =
     ''{"candidate_name": "Ada", "score": 50, "summary": "ok", "reasoning": "r", "is_recommended": true, "score": 7}''
   \<and> analyze_with_gemini example_lib (answering answer_fence_in_key) ''jd'' ''cv'' world0
     = (Inr \<lparr>candidate_name = ''Ada'', score = 7, summary = ''ok'', reasoning = ''r'',
             is_recommended = True\<rparr>,
        \<lparr>prompts = [PROMPT_TEMPLATE_format ''jd'' ''cv''], ui = []\<rparr>)\<close>
proof -
  have a: "analyze_with_gemini example_lib (answering answer_fence_in_key) ''jd'' ''cv'' world0
     = (Inr \<lparr>candidate_name = ''Ada'', score = 7, summary = ''ok'', reasoning = ''r'',
             is_recommended = True\<rparr>,
        world0\<lparr>prompts := prompts world0 @ [PROMPT_TEMPLATE_format ''jd'' ''cv'']\<rparr>)"
    by (rule analyze_accepts [where model = "answering answer_fence_in_key" and w = world0,
          OF answering_response example_lib_loads_fence_in_key])
      simp_all
  have p: "response_text answer_fence_in_key = answer_fence_in_key_prepared"
    by (rule response_text_fence_in_key)
  from a p show ?thesis
    by (simp add: world0_def answer_fence_in_key_def answer_fence_in_key_prepared_def)
qed

text \<open>
  Claim C4, amended: when the prepared text of a response parses to an object with a
  text name, a text summary, a reasoning that is a text or an object, an integer score
  from 0 to 100 and any boolean flag, the response is accepted: the record returned
  carries the name, the summary, the score and the flag of that object unchanged (and its
  reasoning, when that is a text), whatever score and flag are relative to the 70-point
  threshold, and nothing is shown.
\<close>

theorem flag_not_checked_against_score:
  assumes "model (prompts w) (PROMPT_TEMPLATE_format job_description resume_text)
             = Inr (Response (Inr raw))"
    and "json_loads lib (response_text raw) = Inr (JObject d)"
    and "map_of d ''candidate_name'' = Some (JString n)"
    and "map_of d ''score'' = Some (JInt s)" and "0 \<le> s" and "s \<le> 100"
    and "map_of d ''summary'' = Some (JString sm)"
    and "(\<exists>t. map_of d ''reasoning'' = Some (JString t))
         \<or> (\<exists>rd. map_of d ''reasoning'' = Some (JObject rd))"
    and "map_of d ''is_recommended'' = Some (JBool b)"
  shows "\<exists>a. analyze_with_gemini lib model job_description resume_text w
             = (Inr a, w\<lparr>prompts := prompts w
                              @ [PROMPT_TEMPLATE_format job_description resume_text]\<rparr>)
           \<and> candidate_name a = n \<and> score a = s \<and> summary a = sm \<and> is_recommended a = b
           \<and> (\<forall>t. map_of d ''reasoning'' = Some (JString t) \<longrightarrow> reasoning a = t)"
proof -
  let ?kw = "normalize_reasoning lib d"
  from assms(8) obtain t where r: "map_of ?kw ''reasoning'' = Some (JString t)"
    and rt: "\<forall>u. map_of d ''reasoning'' = Some (JString u) \<longrightarrow> t = u"
  proof
    assume "\<exists>t. map_of d ''reasoning'' = Some (JString t)"
    then obtain t where t: "map_of d ''reasoning'' = Some (JString t)" ..
    then have "map_of ?kw ''reasoning'' = Some (JString t)" by (rule normalize_reasoning_text)
    with t that show ?thesis by simp
  next
    assume "\<exists>rd. map_of d ''reasoning'' = Some (JObject rd)"
    then obtain rd where rd: "map_of d ''reasoning'' = Some (JObject rd)" ..
    then obtain t where "map_of ?kw ''reasoning'' = Some (JString t)"
      using normalize_reasoning_dict by blast
    with rd that show ?thesis by simp
  qed
  have n: "validate_str lib (map_of ?kw ''candidate_name'') = Some n"
    using assms(3) by (simp add: normalize_reasoning_other validate_str_def)
  have s: "validate_score lib (map_of ?kw ''score'') = Some s"
    using assms(4,5,6) by (simp add: normalize_reasoning_other validate_score_def validate_int_def)
  have sm: "validate_str lib (map_of ?kw ''summary'') = Some sm"
    using assms(7) by (simp add: normalize_reasoning_other validate_str_def)
  have b: "validate_bool lib (map_of ?kw ''is_recommended'') = Some b"
    using assms(9) by (simp add: normalize_reasoning_other validate_bool_def)
  have "validate_fields lib ?kw
      = Some \<lparr>candidate_name = n, score = s, summary = sm, reasoning = t, is_recommended = b\<rparr>"
    unfolding validate_fields_def using n s sm b r by (simp add: validate_str_def)
  then have "try_body lib (Inr (Response (Inr raw)))
      = Inr \<lparr>candidate_name = n, score = s, summary = sm, reasoning = t, is_recommended = b\<rparr>"
    using assms(2) by (simp add: try_body_response CandidateAnalysis_init_def)
  then show ?thesis
    using assms(1) rt by (simp add: analyze_with_gemini_def Let_def)
qed

theorem flag_not_checked_against_score_witness:
  "\<exists>a. analyze_with_gemini example_lib (answering answer_inconsistent) ''jd'' ''cv'' world0
           = (Inr a, world0\<lparr>prompts := prompts world0 @ [PROMPT_TEMPLATE_format ''jd'' ''cv'']\<rparr>)
       \<and> candidate_name a = ''Ada'' \<and> score a = 50 \<and> summary a = ''ok''
       \<and> is_recommended a = True \<and> reasoning a = ''r''"
proof -
  have h2: "json_loads example_lib (response_text answer_inconsistent)
     = Inr (JObject [(''candidate_name'', JString ''Ada''), (''score'', JInt 50),
                     (''summary'', JString ''ok''), (''reasoning'', JString ''r''),
                     (''is_recommended'', JBool True)])"
    by (simp add: example_lib_loads_inconsistent answer_object_def)
  have "\<exists>a. analyze_with_gemini example_lib (answering answer_inconsistent) ''jd'' ''cv'' world0
           = (Inr a, world0\<lparr>prompts := prompts world0 @ [PROMPT_TEMPLATE_format ''jd'' ''cv'']\<rparr>)
       \<and> candidate_name a = ''Ada'' \<and> score a = 50 \<and> summary a = ''ok''
       \<and> is_recommended a = True
       \<and> (\<forall>t. map_of [(''candidate_name'', JString ''Ada''), (''score'', JInt 50),
                     (''summary'', JString ''ok''), (''reasoning'', JString ''r''),
                     (''is_recommended'', JBool True)] ''reasoning'' = Some (JString t)
              \<longrightarrow> reasoning a = t)"
    by (rule flag_not_checked_against_score
        [where model = "answering answer_inconsistent" and w = world0 and lib = example_lib,
          OF answering_response h2])
      simp_all
  then show ?thesis by simp
qed

text \<open>
  Claim C3, as stated, fails twice. A score of 150 is rejected at construction, but the
  rejection is pydantic's \<^verbatim>\<open>ValidationError\<close>, which the first handler does not list: the
  record comes from the handler of unexpected errors, and its reasoning holds the text of
  the error, not the raw response. And no field of \<^verbatim>\<open>models.py\<close> asks for a non-empty
  text: a response with an empty name is accepted as it is.
\<close>

theorem constraint_violation_counterexample:
  "analyze_with_gemini example_lib (answering answer_score_150) ''jd'' ''cv'' world0
     = (Inr \<lparr>candidate_name = ''Unknown/Error'', score = 0, summary = ''Analysis failed !'',
             reasoning = ''An unexpected error occurred : ''
               @ ''1 validation error for CandidateAnalysis\<newline>score\<newline>''
               @ ''  Input should be less than or equal to 100'',
             is_recommended = False\<rparr>,
        \<lparr>prompts = [PROMPT_TEMPLATE_format ''jd'' ''cv''],
         ui = [StError (''An unexpected error occurred during analysis : ''
               @ ''1 validation error for CandidateAnalysis\<newline>score\<newline>''
               @ ''  Input should be less than or equal to 100'')]\<rparr>)
   \<and> \<not> sublist answer_score_150
         (''An unexpected error occurred : ''
          @ ''1 validation error for CandidateAnalysis\<newline>score\<newline>''
          @ ''  Input should be less than or equal to 100'')
   \<and> analyze_with_gemini example_lib (answering answer_empty_name) ''jd'' ''cv'' world0
     = (Inr \<lparr>candidate_name = [], score = 50, summary = ''ok'', reasoning = ''r'',
             is_recommended = False\<rparr>,
        \<lparr>prompts = [PROMPT_TEMPLATE_format ''jd'' ''cv''], ui = []\<rparr>)"
proof -
  have ns: "\<not> sublist answer_score_150
         (''An unexpected error occurred : ''
          @ ''1 validation error for CandidateAnalysis\<newline>score\<newline>''
          @ ''  Input should be less than or equal to 100'')"
    by (simp add: answer_score_150_def sublist_Cons_right)
  have v1: "validate_fields example_lib
              (normalize_reasoning example_lib
                 [(''candidate_name'', JString ''Ada''), (''score'', JInt 150),
                  (''summary'', JString ''ok''), (''reasoning'', JString ''r''),
                  (''is_recommended'', JBool True)]) = None"
    by (simp add: validate_fields_def normalize_reasoning_def validate_str_def
        validate_score_def validate_int_def)
  have b1: "try_body example_lib (Inr (Response (Inr answer_score_150)))
      = Inl (Exn ValidationError (''1 validation error for CandidateAnalysis\<newline>score\<newline>''
               @ ''  Input should be less than or equal to 100''))"
    using v1
    by (simp add: try_body_response example_lib_loads_score_150 answer_object_def
        CandidateAnalysis_init_def)
      (simp add: example_lib_def)
  have r1: "analyze_with_gemini example_lib (answering answer_score_150) ''jd'' ''cv'' world0
     = (Inr \<lparr>candidate_name = ''Unknown/Error'', score = 0, summary = ''Analysis failed !'',
             reasoning = ''An unexpected error occurred : ''
               @ ''1 validation error for CandidateAnalysis\<newline>score\<newline>''
               @ ''  Input should be less than or equal to 100'',
             is_recommended = False\<rparr>,
        \<lparr>prompts = [PROMPT_TEMPLATE_format ''jd'' ''cv''],
         ui = [StError (''An unexpected error occurred during analysis : ''
               @ ''1 validation error for CandidateAnalysis\<newline>score\<newline>''
               @ ''  Input should be less than or equal to 100'')]\<rparr>)"
    using b1
    by (simp add: analyze_with_gemini_def Let_def answering_def world0_def
        unexpected_error_handler_def emit_def)
  have "analyze_with_gemini example_lib (answering answer_empty_name) ''jd'' ''cv'' world0
     = (Inr \<lparr>candidate_name = [], score = 50, summary = ''ok'', reasoning = ''r'',
             is_recommended = False\<rparr>,
        world0\<lparr>prompts := prompts world0 @ [PROMPT_TEMPLATE_format ''jd'' ''cv'']\<rparr>)"
    by (rule analyze_accepts [where model = "answering answer_empty_name" and w = world0,
          OF answering_response example_lib_loads_empty_name])
      simp_all
  then have r2: "analyze_with_gemini example_lib (answering answer_empty_name) ''jd'' ''cv'' world0
     = (Inr \<lparr>candidate_name = [], score = 50, summary = ''ok'', reasoning = ''r'',
             is_recommended = False\<rparr>,
        \<lparr>prompts = [PROMPT_TEMPLATE_format ''jd'' ''cv''], ui = []\<rparr>)"
    by (simp add: world0_def)
  from r1 ns r2 show ?thesis by (intro conjI)
qed

text \<open>
  Claim C3, amended: when the prepared text of a response parses to an object whose score
  is an integer outside 0 to 100, or which lacks one of the five fields, the analysis
  returns a record (no exception leaves it) named \<open>Unknown/Error\<close>, with score 0 and not
  recommended, and shows one error that names the failure by the text of pydantic's
  validation error. No text field has to be non-empty: an object with a text name, summary
  and reasoning, empty or not, an integer score from 0 to 100 and a boolean flag is
  accepted and returned field by field, and nothing is shown.
\<close>

theorem constraint_violation_fallback:
  assumes "model (prompts w) (PROMPT_TEMPLATE_format job_description resume_text)
             = Inr (Response (Inr raw))"
    and "json_loads lib (response_text raw) = Inr (JObject d)"
  shows "((\<exists>s. map_of d ''score'' = Some (JInt s) \<and> (s < 0 \<or> 100 < s))
          \<or> map_of d ''candidate_name'' = None \<or> map_of d ''score'' = None
          \<or> map_of d ''summary'' = None \<or> map_of d ''reasoning'' = None
          \<or> map_of d ''is_recommended'' = None
          \<longrightarrow> (\<exists>a w'. analyze_with_gemini lib model job_description resume_text w = (Inr a, w')
                 \<and> candidate_name a = ''Unknown/Error'' \<and> score a = 0 \<and> \<not> is_recommended a
                 \<and> ui w' = ui w @ [StError (''An unexpected error occurred during analysis : ''
                        @ validation_error_str lib (normalize_reasoning lib d))]))
         \<and> (\<forall>n s sm r b.
               map_of d ''candidate_name'' = Some (JString n)
               \<and> map_of d ''score'' = Some (JInt s) \<and> 0 \<le> s \<and> s \<le> 100
               \<and> map_of d ''summary'' = Some (JString sm)
               \<and> map_of d ''reasoning'' = Some (JString r)
               \<and> map_of d ''is_recommended'' = Some (JBool b)
               \<longrightarrow> analyze_with_gemini lib model job_description resume_text w
                    = (Inr \<lparr>candidate_name = n, score = s, summary = sm, reasoning = r,
                            is_recommended = b\<rparr>,
                       w\<lparr>prompts := prompts w
                            @ [PROMPT_TEMPLATE_format job_description resume_text]\<rparr>))"
proof -
  let ?kw = "normalize_reasoning lib d"
  have bad: "\<exists>a w'. analyze_with_gemini lib model job_description resume_text w = (Inr a, w')
                 \<and> candidate_name a = ''Unknown/Error'' \<and> score a = 0 \<and> \<not> is_recommended a
                 \<and> ui w' = ui w @ [StError (''An unexpected error occurred during analysis : ''
                        @ validation_error_str lib ?kw)]"
    if v: "(\<exists>s. map_of d ''score'' = Some (JInt s) \<and> (s < 0 \<or> 100 < s))
          \<or> map_of d ''candidate_name'' = None \<or> map_of d ''score'' = None
          \<or> map_of d ''summary'' = None \<or> map_of d ''reasoning'' = None
          \<or> map_of d ''is_recommended'' = None"
  proof -
    have "validate_score lib (map_of ?kw ''score'') = None
          \<or> map_of ?kw ''candidate_name'' = None \<or> map_of ?kw ''summary'' = None
          \<or> map_of ?kw ''reasoning'' = None \<or> map_of ?kw ''is_recommended'' = None"
      using v
      by (auto simp: normalize_reasoning_other normalize_reasoning_missing
          validate_score_def validate_int_def)
    then have "validate_fields lib ?kw = None" by (rule validate_fields_missing)
    then have "try_body lib (Inr (Response (Inr raw)))
        = Inl (Exn ValidationError (validation_error_str lib ?kw))"
      using assms(2) by (simp add: try_body_response CandidateAnalysis_init_def)
    then show ?thesis
      using assms(1)
      by (simp add: analyze_with_gemini_def Let_def unexpected_error_handler_def emit_def)
  qed
  have good: "analyze_with_gemini lib model job_description resume_text w
        = (Inr \<lparr>candidate_name = n, score = s, summary = sm, reasoning = r, is_recommended = b\<rparr>,
           w\<lparr>prompts := prompts w @ [PROMPT_TEMPLATE_format job_description resume_text]\<rparr>)"
    if f: "map_of d ''candidate_name'' = Some (JString n)
           \<and> map_of d ''score'' = Some (JInt s) \<and> 0 \<le> s \<and> s \<le> 100
           \<and> map_of d ''summary'' = Some (JString sm)
           \<and> map_of d ''reasoning'' = Some (JString r)
           \<and> map_of d ''is_recommended'' = Some (JBool b)" for n s sm r b
  proof -
    from f have "map_of ?kw ''reasoning'' = Some (JString r)"
      by (simp add: normalize_reasoning_text)
    with f have "validate_fields lib ?kw
        = Some \<lparr>candidate_name = n, score = s, summary = sm, reasoning = r, is_recommended = b\<rparr>"
      by (simp add: validate_fields_def normalize_reasoning_other validate_str_def
          validate_score_def validate_int_def validate_bool_def)
    then have "try_body lib (Inr (Response (Inr raw)))
        = Inr \<lparr>candidate_name = n, score = s, summary = sm, reasoning = r, is_recommended = b\<rparr>"
      using assms(2) by (simp add: try_body_response CandidateAnalysis_init_def)
    then show ?thesis
      using assms(1) by (simp add: analyze_with_gemini_def Let_def)
  qed
  from bad good show ?thesis by blast
qed

theorem constraint_violation_fallback_witness:
  "(\<exists>a w'. analyze_with_gemini example_lib (answering answer_score_150) ''jd'' ''cv'' world0
           = (Inr a, w')
       \<and> candidate_name a = ''Unknown/Error'' \<and> score a = 0 \<and> \<not> is_recommended a
       \<and> ui w' = [StError (''An unexpected error occurred during analysis : ''
              @ ''1 validation error for CandidateAnalysis\<newline>score\<newline>''
              @ ''  Input should be less than or equal to 100'')])
   \<and> analyze_with_gemini example_lib (answering answer_empty_name) ''jd'' ''cv'' world0
     = (Inr \<lparr>candidate_name = [], score = 50, summary = ''ok'', reasoning = ''r'',
             is_recommended = False\<rparr>,
        \<lparr>prompts = [PROMPT_TEMPLATE_format ''jd'' ''cv''], ui = []\<rparr>)"
proof -
  let ?d1 = "[(''candidate_name'', JString ''Ada''), (''score'', JInt 150),
              (''summary'', JString ''ok''), (''reasoning'', JString ''r''),
              (''is_recommended'', JBool True)]"
  let ?d2 = "[(''candidate_name'', JString []), (''score'', JInt 50),
              (''summary'', JString ''ok''), (''reasoning'', JString ''r''),
              (''is_recommended'', JBool False)]"
  have h1: "json_loads example_lib (response_text answer_score_150) = Inr (JObject ?d1)"
    by (simp add: example_lib_loads_score_150 answer_object_def)
  have h2: "json_loads example_lib (response_text answer_empty_name) = Inr (JObject ?d2)"
    by (simp add: example_lib_loads_empty_name answer_object_def)
  have m: "validation_error_str example_lib (normalize_reasoning example_lib ?d1)
      = ''1 validation error for CandidateAnalysis\<newline>score\<newline>''
        @ ''  Input should be less than or equal to 100''"
    by (simp add: example_lib_def)
  have s: "\<exists>s. map_of ?d1 ''score'' = Some (JInt s) \<and> (s < 0 \<or> 100 < s)" by simp
  from constraint_violation_fallback [where model = "answering answer_score_150"
      and w = world0 and lib = example_lib, OF answering_response h1] s
  have c1: "\<exists>a w'. analyze_with_gemini example_lib (answering answer_score_150) ''jd'' ''cv'' world0
           = (Inr a, w')
       \<and> candidate_name a = ''Unknown/Error'' \<and> score a = 0 \<and> \<not> is_recommended a
       \<and> ui w' = ui world0 @ [StError (''An unexpected error occurred during analysis : ''
              @ validation_error_str example_lib (normalize_reasoning example_lib ?d1))]"
    by blast
  have f: "map_of ?d2 ''candidate_name'' = Some (JString [])
           \<and> map_of ?d2 ''score'' = Some (JInt 50) \<and> (0::int) \<le> 50 \<and> (50::int) \<le> 100
           \<and> map_of ?d2 ''summary'' = Some (JString ''ok'')
           \<and> map_of ?d2 ''reasoning'' = Some (JString ''r'')
           \<and> map_of ?d2 ''is_recommended'' = Some (JBool False)"
    by simp
  from constraint_violation_fallback [where model = "answering answer_empty_name"
      and w = world0 and lib = example_lib, OF answering_response h2] f
  have c2: "analyze_with_gemini example_lib (answering answer_empty_name) ''jd'' ''cv'' world0
     = (Inr \<lparr>candidate_name = [], score = 50, summary = ''ok'', reasoning = ''r'',
             is_recommended = False\<rparr>,
        world0\<lparr>prompts := prompts world0 @ [PROMPT_TEMPLATE_format ''jd'' ''cv'']\<rparr>)"
    by blast
  from c1 c2 show ?thesis unfolding m by (simp add: world0_def)
qed

lemma try_body_valid:
  "try_body lib response = Inr a \<Longrightarrow> 0 \<le> score a \<and> score a \<le> 100"
  by (auto simp: try_body_def CandidateAnalysis_init_def dest: validate_fields_score
      split: sum.splits json.splits option.splits)

lemma format_error_handler_score:
  "format_error_handler e response w = (Inr a, w') \<Longrightarrow> score a = 0"
  by (auto simp: format_error_handler_def Let_def split: sum.splits)

lemma unexpected_error_handler_score:
  "unexpected_error_handler e w = (Inr a, w') \<Longrightarrow> score a = 0"
  by (auto simp: unexpected_error_handler_def)

lemma analyze_with_gemini_score:
  assumes "analyze_with_gemini lib model job_description resume_text w = (Inr a, w')"
  shows "0 \<le> score a \<and> score a \<le> 100"
proof (cases "try_body lib (model (prompts w) (PROMPT_TEMPLATE_format job_description resume_text))")
  case (Inr b)
  with assms have "a = b" by (simp add: analyze_with_gemini_def Let_def)
  with Inr show ?thesis using try_body_valid by blast
next
  case (Inl e)
  with assms have "score a = 0"
    by (auto simp: analyze_with_gemini_def Let_def
        dest: format_error_handler_score unexpected_error_handler_score split: if_splits)
  then show ?thesis by simp
qed

section \<open>The loop over the uploads and the button\<close>

lemma parse_resume_text:
  "fst (parse_resume lib file_bytes filename w) = fst (parse_resume lib file_bytes filename w0)"
  by (simp add: parse_resume_def split: sum.splits)

lemma parse_resume_prompts:
  "prompts (snd (parse_resume lib file_bytes filename w)) = prompts w"
  by (simp add: parse_resume_def emit_def split: sum.splits)

lemma loop_body_scores:
  assumes "loop_body lib model jd_input n i file all_analyses w = (Inr all_analyses', w')"
    and "\<forall>a \<in> set all_analyses. 0 \<le> score a \<and> score a \<le> 100"
  shows "\<forall>a \<in> set all_analyses'. 0 \<le> score a \<and> score a \<le> 100"
  using assms
  by (auto simp: loop_body_def Let_def dest: analyze_with_gemini_score
      split: prod.splits if_splits sum.splits)

lemma analyze_loop_scores:
  "analyze_loop lib model jd_input n i files all_analyses w = (Inr all_analyses', w')
   \<Longrightarrow> \<forall>a \<in> set all_analyses. 0 \<le> score a \<and> score a \<le> 100
   \<Longrightarrow> \<forall>a \<in> set all_analyses'. 0 \<le> score a \<and> score a \<le> 100"
proof (induction files arbitrary: i all_analyses w)
  case Nil
  then show ?case by simp
next
  case (Cons f fs)
  from Cons.prems(1) obtain mid w1
    where body: "loop_body lib model jd_input n i f all_analyses w = (Inr mid, w1)"
      and rest: "analyze_loop lib model jd_input n (i + 1) fs mid w1 = (Inr all_analyses', w')"
    by (auto split: prod.splits sum.splits)
  from loop_body_scores [OF body Cons.prems(2)]
  have "\<forall>a \<in> set mid. 0 \<le> score a \<and> score a \<le> 100" .
  with Cons.IH [OF rest] show ?case .
qed

lemma set_ranked_candidates: "set (ranked_candidates xs) = set xs"
  by (simp add: ranked_candidates_def sorted_py_def)

text \<open>
  Claim C10: a record that the analysis returns has a score from 0 to 100, on every
  path; so has every record accumulated by the loop, and every record of the ranking.
\<close>

theorem every_score_in_range:
  "(analyze_with_gemini lib model job_description resume_text w = (Inr a, w')
      \<longrightarrow> 0 \<le> score a \<and> score a \<le> 100)
   \<and> (analyze_loop lib model job_description n i files [] w = (Inr all_analyses, w'')
      \<longrightarrow> (\<forall>c \<in> set all_analyses. 0 \<le> score c \<and> score c \<le> 100)
        \<and> (\<forall>c \<in> set (ranked_candidates all_analyses). 0 \<le> score c \<and> score c \<le> 100))"
proof -
  have one: "0 \<le> score a \<and> score a \<le> 100"
    if "analyze_with_gemini lib model job_description resume_text w = (Inr a, w')"
    using that by (rule analyze_with_gemini_score)
  have acc: "\<forall>c \<in> set all_analyses. 0 \<le> score c \<and> score c \<le> 100"
    if "analyze_loop lib model job_description n i files [] w = (Inr all_analyses, w'')"
    using that by (rule analyze_loop_scores) simp
  have "\<forall>c \<in> set (ranked_candidates all_analyses). 0 \<le> score c \<and> score c \<le> 100"
    if "analyze_loop lib model job_description n i files [] w = (Inr all_analyses, w'')"
    using acc [OF that] by (simp add: set_ranked_candidates)
  with one acc show ?thesis by blast
qed

lemma example_analysis:
  "analyze_with_gemini example_lib (answering answer_inconsistent) ''jd'' rt w
     = (Inr \<lparr>candidate_name = ''Ada'', score = 50, summary = ''ok'', reasoning = ''r'',
             is_recommended = True\<rparr>,
        w\<lparr>prompts := prompts w @ [PROMPT_TEMPLATE_format ''jd'' rt]\<rparr>)"
  by (rule analyze_accepts [where model = "answering answer_inconsistent" and w = w,
        OF answering_response example_lib_loads_inconsistent])
    simp_all

lemma example_loop:
  "analyze_loop example_lib (answering answer_inconsistent) ''jd'' 1 0 [upload_pdf] [] world0
     = (Inr [\<lparr>candidate_name = ''Ada'', score = 50, summary = ''ok'', reasoning = ''r'',
              is_recommended = True\<rparr>],
        \<lparr>prompts = [PROMPT_TEMPLATE_format ''jd'' ''abcd''],
         ui = [StWrite ''Processing cv.pdf ...'', StProgress 1 1]\<rparr>)"
proof -
  have "parse_resume example_lib [1, 2, 3] ''cv.pdf'' w = (''abcd'', w)" for w
    by (simp add: parse_resume_def endswith_def example_lib_def)
  then show ?thesis
    by (simp add: loop_body_def Let_def upload_pdf_def example_analysis emit_def world0_def)
qed

theorem every_score_in_range_witness:
  "analyze_with_gemini example_lib (answering answer_inconsistent) ''jd'' ''cv'' world0
     = (Inr \<lparr>candidate_name = ''Ada'', score = 50, summary = ''ok'', reasoning = ''r'',
             is_recommended = True\<rparr>,
        world0\<lparr>prompts := prompts world0 @ [PROMPT_TEMPLATE_format ''jd'' ''cv'']\<rparr>)
   \<and> analyze_loop example_lib (answering answer_inconsistent) ''jd'' 1 0 [upload_pdf] [] world0
     = (Inr [\<lparr>candidate_name = ''Ada'', score = 50, summary = ''ok'', reasoning = ''r'',
              is_recommended = True\<rparr>],
        \<lparr>prompts = [PROMPT_TEMPLATE_format ''jd'' ''abcd''],
         ui = [StWrite ''Processing cv.pdf ...'', StProgress 1 1]\<rparr>)
   \<and> 0 \<le> score \<lparr>candidate_name = ''Ada'', score = 50, summary = ''ok'', reasoning = ''r'',
             is_recommended = True\<rparr>
   \<and> score \<lparr>candidate_name = ''Ada'', score = 50, summary = ''ok'', reasoning = ''r'',
             is_recommended = True\<rparr> \<le> 100"
proof -
  let ?a = "\<lparr>candidate_name = ''Ada'', score = 50, summary = ''ok'', reasoning = ''r'',
             is_recommended = True\<rparr>"
  note t = every_score_in_range [where lib = example_lib
      and model = "answering answer_inconsistent" and job_description = "''jd''"
      and resume_text = "''cv''" and w = world0 and a = ?a
      and w' = "world0\<lparr>prompts := prompts world0 @ [PROMPT_TEMPLATE_format ''jd'' ''cv'']\<rparr>"
      and n = 1 and i = 0 and files = "[upload_pdf]" and all_analyses = "[?a]"
      and w'' = "\<lparr>prompts = [PROMPT_TEMPLATE_format ''jd'' ''abcd''],
         ui = [StWrite ''Processing cv.pdf ...'', StProgress 1 1]\<rparr>"]
  from t example_analysis [of "''cv''" world0] example_loop
  have "0 \<le> score ?a \<and> score ?a \<le> 100" by blast
  with example_analysis [of "''cv''" world0] example_loop show ?thesis by blast
qed

text \<open>
  Claim C6: an upload whose extracted text is empty leaves the accumulated results as
  they were, and no prompt is sent for it.
\<close>

theorem empty_text_skipped:
  assumes "fst (parse_resume lib (read file) (name file) w) = []"
  shows "\<exists>w'. loop_body lib model jd_input n i file all_analyses w = (Inr all_analyses, w')
           \<and> prompts w' = prompts w"
proof -
  let ?w1 = "emit (StWrite (''Processing '' @ name file @ '' ...'')) w"
  obtain resume_text w2
    where p: "parse_resume lib (read file) (name file) ?w1 = (resume_text, w2)"
    by (cases "parse_resume lib (read file) (name file) ?w1")
  have "resume_text = fst (parse_resume lib (read file) (name file) ?w1)" using p by simp
  also have "\<dots> = fst (parse_resume lib (read file) (name file) w)" by (rule parse_resume_text)
  finally have e: "resume_text = []" using assms by simp
  have "prompts w2 = prompts (snd (parse_resume lib (read file) (name file) ?w1))"
    using p by simp
  then have "prompts w2 = prompts w" by (simp add: parse_resume_prompts emit_def)
  with p e show ?thesis by (simp add: loop_body_def Let_def emit_def)
qed

theorem empty_text_skipped_witness:
  "fst (parse_resume example_lib (read upload_txt) (name upload_txt) world0) = []
   \<and> (\<exists>w'. loop_body example_lib (answering answer_inconsistent) ''jd'' 1 0 upload_txt
              [candidate ''a'' 40] world0 = (Inr [candidate ''a'' 40], w')
          \<and> prompts w' = prompts world0)"
proof -
  have h: "fst (parse_resume example_lib (read upload_txt) (name upload_txt) world0) = []"
    by (simp add: parse_resume_def upload_txt_def endswith_def)
  from empty_text_skipped [OF h] h show ?thesis by blast
qed

lemma strip_Nil: "strip [] = []"
  by (simp add: strip_def)

text \<open>
  Claim C9: with a job description that is empty (or only whitespace), or with no
  upload, a click shows one validation error and does nothing else: the state is the old
  one with that error added, whatever the libraries and the model would do, so no prompt
  is sent, no file is read and no result is shown.
\<close>

theorem invalid_input_blocks:
  assumes "strip jd_input = [] \<or> resume_files = []"
  shows "analyze_button lib model jd_input resume_files w
           = (None, emit (StError (if strip jd_input = [] then ''Please paste a job description.''
                                   else ''Please upload at least one resume.'')) w)
         \<and> prompts (snd (analyze_button lib model jd_input resume_files w)) = prompts w
         \<and> ui (snd (analyze_button lib model jd_input resume_files w))
           = ui w @ [StError (if strip jd_input = [] then ''Please paste a job description.''
                              else ''Please upload at least one resume.'')]"
  using assms by (auto simp: analyze_button_def emit_def)

theorem invalid_input_blocks_witness:
  "analyze_button example_lib (answering answer_inconsistent) [] [upload_pdf] world0
     = (None, \<lparr>prompts = [], ui = [StError ''Please paste a job description.'']\<rparr>)
   \<and> analyze_button example_lib (answering answer_inconsistent) ''Engineer'' [] world0
     = (None, \<lparr>prompts = [], ui = [StError ''Please upload at least one resume.'']\<rparr>)"
proof -
  have h1: "strip [] = [] \<or> [upload_pdf] = []" by (simp add: strip_Nil)
  have h2: "strip ''Engineer'' = [] \<or> ([] :: uploaded_file list) = []" by simp
  have s: "strip ''Engineer'' \<noteq> []" by (simp add: strip_def isspace_def)
  from invalid_input_blocks [OF h1, of example_lib "answering answer_inconsistent" world0]
    invalid_input_blocks [OF h2, of example_lib "answering answer_inconsistent" world0] s
  show ?thesis by (simp add: strip_Nil emit_def world0_def)
qed

section \<open>The ranking as it is shown\<close>

lemma example_run_in_turn:
  "analyze_loop example_lib (answering_in_turn answer_inconsistent answer_high) ''jd'' 2 0
     [upload_pdf, upload_pdf] []
     (emit (StProgress 0 1)
        (emit (StSpinner ''Analyzing ... this may take a few moments ...'') world0))
   = (Inr [\<lparr>candidate_name = ''Ada'', score = 50, summary = ''ok'', reasoning = ''r'',
             is_recommended = True\<rparr>,
           \<lparr>candidate_name = ''Bo'', score = 90, summary = ''ok'', reasoning = ''r'',
             is_recommended = True\<rparr>],
      \<lparr>prompts = [PROMPT_TEMPLATE_format ''jd'' ''abcd'', PROMPT_TEMPLATE_format ''jd'' ''abcd''],
       ui = [StSpinner ''Analyzing ... this may take a few moments ...'', StProgress 0 1,
             StWrite ''Processing cv.pdf ...'', StProgress 1 2,
             StWrite ''Processing cv.pdf ...'', StProgress 2 2]\<rparr>)"
proof -
  have p: "parse_resume example_lib [1, 2, 3] ''cv.pdf'' w = (''abcd'', w)" for w
    by (simp add: parse_resume_def endswith_def example_lib_def)
  have a1: "analyze_with_gemini example_lib (answering_in_turn answer_inconsistent answer_high)
              ''jd'' ''abcd'' w
     = (Inr \<lparr>candidate_name = ''Ada'', score = 50, summary = ''ok'', reasoning = ''r'',
             is_recommended = True\<rparr>,
        w\<lparr>prompts := prompts w @ [PROMPT_TEMPLATE_format ''jd'' ''abcd'']\<rparr>)"
    if "prompts w = []" for w
    by (rule analyze_accepts [where model = "answering_in_turn answer_inconsistent answer_high"
          and w = w and raw = answer_inconsistent, OF _ example_lib_loads_inconsistent])
      (simp_all add: answering_in_turn_def that)
  have a2: "analyze_with_gemini example_lib (answering_in_turn answer_inconsistent answer_high)
              ''jd'' ''abcd'' w
     = (Inr \<lparr>candidate_name = ''Bo'', score = 90, summary = ''ok'', reasoning = ''r'',
             is_recommended = True\<rparr>,
        w\<lparr>prompts := prompts w @ [PROMPT_TEMPLATE_format ''jd'' ''abcd'']\<rparr>)"
    if "prompts w \<noteq> []" for w
    by (rule analyze_accepts [where model = "answering_in_turn answer_inconsistent answer_high"
          and w = w and raw = answer_high, OF _ example_lib_loads_high])
      (simp_all add: answering_in_turn_def that)
  show ?thesis
    by (simp add: loop_body_def Let_def upload_pdf_def p a1 a2 emit_def world0_def)
qed

text \<open>
  Claim C5: the ranking holds the accumulated records, each as often as it was
  accumulated, with scores descending, and the records of any one score stand in the
  order in which they were accumulated; and when the loop over the uploads ends, what
  the button shows is, for a non-empty list of results, the heading and one expander per
  record in the order of that ranking, and for an empty list nothing.
\<close>

theorem ranked_candidates_sorted_stable:
  "sorted_wrt (\<lambda>a b. score b \<le> score a) (ranked_candidates all_analyses)
   \<and> mset (ranked_candidates all_analyses) = mset all_analyses
   \<and> (\<forall>k. filter (\<lambda>a. score a = k) (ranked_candidates all_analyses)
            = filter (\<lambda>a. score a = k) all_analyses)
   \<and> (strip jd_input \<noteq> [] \<and> resume_files \<noteq> []
       \<and> analyze_loop lib model jd_input (length resume_files) 0 resume_files []
            (emit (StProgress 0 1)
               (emit (StSpinner ''Analyzing ... this may take a few moments ...'') w))
          = (Inr all_analyses, w1)
       \<longrightarrow> analyze_button lib model jd_input resume_files w
            = (None, w1\<lparr>ui := ui w1 @ StProgressEmpty
                 # (if all_analyses = [] then []
                    else StSubheader ''Analysis Results''
                         # map render_candidate (ranked_candidates all_analyses))\<rparr>))"
proof (intro conjI allI impI)
  show "sorted_wrt (\<lambda>a b. score b \<le> score a) (ranked_candidates all_analyses)"
    unfolding ranked_candidates_def by (rule sorted_py_reverse_descending)
next
  show "mset (ranked_candidates all_analyses) = mset all_analyses"
    by (simp add: ranked_candidates_def sorted_py_def)
next
  fix k
  show "filter (\<lambda>a. score a = k) (ranked_candidates all_analyses)
      = filter (\<lambda>a. score a = k) all_analyses"
    unfolding ranked_candidates_def by (rule sorted_py_reverse_stable)
next
  assume "strip jd_input \<noteq> [] \<and> resume_files \<noteq> []
       \<and> analyze_loop lib model jd_input (length resume_files) 0 resume_files []
            (emit (StProgress 0 1)
               (emit (StSpinner ''Analyzing ... this may take a few moments ...'') w))
          = (Inr all_analyses, w1)"
  then show "analyze_button lib model jd_input resume_files w
            = (None, w1\<lparr>ui := ui w1 @ StProgressEmpty
                 # (if all_analyses = [] then []
                    else StSubheader ''Analysis Results''
                         # map render_candidate (ranked_candidates all_analyses))\<rparr>)"
    by (simp add: analyze_button_def Let_def emit_def)
qed

theorem ranked_candidates_sorted_stable_witness:
  "strip ''jd'' \<noteq> [] \<and> [upload_pdf, upload_pdf] \<noteq> []
   \<and> analyze_button example_lib (answering_in_turn answer_inconsistent answer_high) ''jd''
       [upload_pdf, upload_pdf] world0
     = (None,
        \<lparr>prompts = [PROMPT_TEMPLATE_format ''jd'' ''abcd'', PROMPT_TEMPLATE_format ''jd'' ''abcd''],
         ui = [StSpinner ''Analyzing ... this may take a few moments ...'', StProgress 0 1,
               StWrite ''Processing cv.pdf ...'', StProgress 1 2,
               StWrite ''Processing cv.pdf ...'', StProgress 2 2,
               StProgressEmpty, StSubheader ''Analysis Results'',
               render_candidate \<lparr>candidate_name = ''Bo'', score = 90, summary = ''ok'',
                                 reasoning = ''r'', is_recommended = True\<rparr>,
               render_candidate \<lparr>candidate_name = ''Ada'', score = 50, summary = ''ok'',
                                 reasoning = ''r'', is_recommended = True\<rparr>]\<rparr>)"
proof -
  let ?ada = "\<lparr>candidate_name = ''Ada'', score = 50, summary = ''ok'', reasoning = ''r'',
               is_recommended = True\<rparr>"
  let ?bo = "\<lparr>candidate_name = ''Bo'', score = 90, summary = ''ok'', reasoning = ''r'',
              is_recommended = True\<rparr>"
  have j: "strip ''jd'' \<noteq> []" by (simp add: strip_def isspace_def)
  have f: "[upload_pdf, upload_pdf] \<noteq> []" by simp
  have n: "[?ada, ?bo] \<noteq> []" by simp
  have len: "length [upload_pdf, upload_pdf] = 2" by simp
  have l: "analyze_loop example_lib (answering_in_turn answer_inconsistent answer_high) ''jd''
       (length [upload_pdf, upload_pdf]) 0 [upload_pdf, upload_pdf] []
       (emit (StProgress 0 1)
          (emit (StSpinner ''Analyzing ... this may take a few moments ...'') world0))
     = (Inr [?ada, ?bo],
        \<lparr>prompts = [PROMPT_TEMPLATE_format ''jd'' ''abcd'', PROMPT_TEMPLATE_format ''jd'' ''abcd''],
         ui = [StSpinner ''Analyzing ... this may take a few moments ...'', StProgress 0 1,
               StWrite ''Processing cv.pdf ...'', StProgress 1 2,
               StWrite ''Processing cv.pdf ...'', StProgress 2 2]\<rparr>)"
    unfolding len by (rule example_run_in_turn)
  have r: "ranked_candidates [?ada, ?bo] = [?bo, ?ada]"
    by (simp add: ranked_candidates_def sorted_py_def)
  note shown = ranked_candidates_sorted_stable [where jd_input = "''jd''"
      and resume_files = "[upload_pdf, upload_pdf]" and all_analyses = "[?ada, ?bo]"
      and lib = example_lib and model = "answering_in_turn answer_inconsistent answer_high"
      and w = world0, THEN conjunct2, THEN conjunct2, THEN conjunct2, rule_format]
  from j f l have "strip ''jd'' \<noteq> [] \<and> [upload_pdf, upload_pdf] \<noteq> []
       \<and> analyze_loop example_lib (answering_in_turn answer_inconsistent answer_high) ''jd''
            (length [upload_pdf, upload_pdf]) 0 [upload_pdf, upload_pdf] []
            (emit (StProgress 0 1)
               (emit (StSpinner ''Analyzing ... this may take a few moments ...'') world0))
          = (Inr [?ada, ?bo],
        \<lparr>prompts = [PROMPT_TEMPLATE_format ''jd'' ''abcd'', PROMPT_TEMPLATE_format ''jd'' ''abcd''],
         ui = [StSpinner ''Analyzing ... this may take a few moments ...'', StProgress 0 1,
               StWrite ''Processing cv.pdf ...'', StProgress 1 2,
               StWrite ''Processing cv.pdf ...'', StProgress 2 2]\<rparr>)"
    by (intro conjI)
  from shown [OF this]
  have "analyze_button example_lib (answering_in_turn answer_inconsistent answer_high) ''jd''
       [upload_pdf, upload_pdf] world0
     = (None,
        \<lparr>prompts = [PROMPT_TEMPLATE_format ''jd'' ''abcd'', PROMPT_TEMPLATE_format ''jd'' ''abcd''],
         ui = [StSpinner ''Analyzing ... this may take a few moments ...'', StProgress 0 1,
               StWrite ''Processing cv.pdf ...'', StProgress 1 2,
               StWrite ''Processing cv.pdf ...'', StProgress 2 2,
               StProgressEmpty, StSubheader ''Analysis Results'',
               render_candidate ?bo, render_candidate ?ada]\<rparr>)"
    unfolding r by simp
  with j f show ?thesis by (intro conjI)
qed

end
